theory Spec2Isabelle
  imports Complex_Main
begin

section \<open>JavaScript values\<close>

text \<open>
  The client is untyped JavaScript: a pushed frame, a response body and the React state
  cells hold arbitrary values. \<open>Obj\<close> carries the own properties of an object as an
  association list (each key once, as \<open>JSON.parse\<close> leaves them).
\<close>

datatype jsval =
    Undefined
  | Null
  | Bool bool
  | Num real
  | Str string
  | Arr "jsval list"
  | Obj "(string \<times> jsval) list"

datatype js_error = TypeError | SyntaxError

text \<open>Truthiness, as tested by \<open>if (v)\<close> and \<open>a && b\<close>.\<close>

fun truthy :: "jsval \<Rightarrow> bool" where
  "truthy Undefined = False"
| "truthy Null = False"
| "truthy (Bool b) = b"
| "truthy (Num n) = (n \<noteq> 0)"
| "truthy (Str s) = (s \<noteq> [])"
| "truthy (Arr xs) = True"
| "truthy (Obj kvs) = True"

text \<open>
  Property read \<open>v.name\<close>: a TypeError on \<open>null\<close> and \<open>undefined\<close>, the own property
  of an object or \<open>undefined\<close> when it has none. It is only used with the names the source
  reads (\<open>type\<close>, \<open>data\<close>, \<open>events\<close>, \<open>time\<close>, \<open>running\<close>, \<open>detail\<close> and the
  statistics fields), none of which a primitive, an array or \<open>Object.prototype\<close> defines.
\<close>

fun get_prop :: "jsval \<Rightarrow> string \<Rightarrow> js_error + jsval" where
  "get_prop Undefined name = Inl TypeError"
| "get_prop Null name = Inl TypeError"
| "get_prop (Obj kvs) name = (case map_of kvs name of None \<Rightarrow> Inr Undefined | Some v \<Rightarrow> Inr v)"
| "get_prop v name = Inr Undefined"

text \<open>
  \<open>JSON.parse\<close> and the coercions of the language belong to the runtime, not to the
  repository: they are parameters of the model. \<open>JSON_parse\<close> returns \<open>None\<close> for the
  SyntaxError it throws; \<open>ToNumber\<close> (\<open>None\<close> for NaN) and \<open>ToString\<close> are consulted only
  where the result is not fixed by the kind of value alone.
\<close>

record runtime =
  JSON_parse :: "string \<Rightarrow> jsval option"
  ToNumber :: "jsval \<Rightarrow> real option"
  ToString :: "jsval \<Rightarrow> string"

text \<open>The comparison \<open>v > 0\<close>: \<open>undefined\<close> is NaN, \<open>null\<close> is 0, \<open>true\<close> is 1.\<close>

fun gt_zero :: "runtime \<Rightarrow> jsval \<Rightarrow> bool" where
  "gt_zero rt Undefined = False"
| "gt_zero rt Null = False"
| "gt_zero rt (Bool b) = b"
| "gt_zero rt (Num n) = (0 < n)"
| "gt_zero rt v = (case ToNumber rt v of None \<Rightarrow> False | Some n \<Rightarrow> 0 < n)"

text \<open>String conversion, as applied by \<open>'text' + v\<close>.\<close>

fun js_to_string :: "runtime \<Rightarrow> jsval \<Rightarrow> string" where
  "js_to_string rt Undefined = ''undefined''"
| "js_to_string rt Null = ''null''"
| "js_to_string rt (Bool b) = (if b then ''true'' else ''false'')"
| "js_to_string rt (Str s) = s"
| "js_to_string rt v = ToString rt v"

text \<open>
  The optional read \<open>v?.name\<close>, which is \<open>undefined\<close> where \<open>v.name\<close> would throw; it
  is also the value of \<open>v.name\<close> wherever the source reads a property of a value it has
  just found truthy.
\<close>

definition field :: "jsval \<Rightarrow> string \<Rightarrow> jsval" where
  "field d name = (case get_prop d name of Inl e \<Rightarrow> Undefined | Inr v \<Rightarrow> v)"

text \<open>
  \<open>Object.is(old, new)\<close> as React applies it to a state cell or an effect dependency,
  where \<open>new\<close> was just built by the caller: an object or array fresh from \<open>JSON.parse\<close>
  or from a response is a new reference, a primitive is compared by value.
\<close>

fun changed :: "jsval \<Rightarrow> jsval \<Rightarrow> bool" where
  "changed old (Arr xs) = True"
| "changed old (Obj kvs) = True"
| "changed old new = (old \<noteq> new)"

section \<open>State of the client\<close>

datatype ready_state = CONNECTING | OPEN | CLOSING | CLOSED

text \<open>
  The object literal of \<open>api.js\<close> lines 146-159. Its three methods close over the socket
  \<open>ws\<close>; a socket is identified by its index in the list of sockets constructed so far.
\<close>

record client =
  ws :: nat

text \<open>The own properties of that object: three functions. No property holds a number.\<close>

datatype member = Function | Number nat

definition client_members :: "(string \<times> member) list" where
  "client_members = [(''send'', Function), (''close'', Function), (''getState'', Function)]"

text \<open>What \<open>parseInt(value, 10)\<close> leaves in the passenger form of \<open>Controls\<close>.\<close>

datatype parsed_int = NaN | Parsed int

datatype request =
    POST_start jsval
  | POST_stop
  | POST_reset
  | GET_status
  | GET_events nat
  | GET_stats
  | GET_config
  | POST_passengers parsed_int parsed_int

text \<open>
  A rejected axios call: \<open>error.message\<close> and \<open>error.response\<close>, which is absent when no
  response arrived and otherwise carries the body \<open>response.data\<close>.
\<close>

record axios_error =
  message :: string
  response :: "jsval option"

text \<open>
  A line of the console. Every \<open>console.error\<close> of the source passes a fixed text and
  the value it caught: an exception thrown by the code or the rejection of a request.
\<close>

datatype thrown = Thrown js_error | Rejected axios_error

datatype console_line = Log string | Err string thrown

text \<open>The settlement of a request: the body of the response, or the rejection.\<close>

datatype outcome = Ok jsval | Failed axios_error

text \<open>One entry of the rolling history built in \<open>Statistics.jsx\<close> lines 45-52.\<close>

record point =
  p_time :: string
  waitTime :: jsval
  rideTime :: jsval
  totalTime :: jsval
  completedTrips :: jsval
  waitingPassengers :: jsval

datatype lifecycle = Fresh | Mounted | Unmounted

text \<open>
  The module variable \<open>activeWebSocket\<close> of \<open>api.js\<close>, the state cells and the ref of
  \<open>App\<close> and \<open>Statistics\<close>, and the part of the browser they act on: the sockets
  constructed, the pending \<open>setTimeout\<close> callbacks of the disconnect handler (each by the
  time it is due), whether each polling interval is set, and what was sent, logged and
  alerted. \<open>App\<close> is rendered once per page, so one set of cells suffices.
\<close>

record app =
  phase :: lifecycle
  sockets :: "ready_state list"
  activeWebSocket :: "client option"
  wsClientRef :: "client option"
  clock :: nat
  timeouts :: "nat list"
  isRunning :: jsval
  simulationState :: jsval
  events :: jsval
  events_interval :: bool
  stats_interval :: bool
  stats :: jsval
  historicalData :: "point list"
  requests :: "request list"
  console :: "console_line list"
  alerts :: "string list"

text \<open>
  Before \<open>App\<close> mounts: \<open>useState(false)\<close>, \<open>useState(null)\<close>, \<open>useState([])\<close>,
  \<open>useRef(null)\<close>, \<open>activeWebSocket = null\<close>, and the initial \<open>stats\<close> object of
  \<open>Statistics.jsx\<close> lines 22-29.
\<close>

definition init :: app where
  "init = \<lparr> phase = Fresh, sockets = [], activeWebSocket = None, wsClientRef = None,
            clock = 0, timeouts = [], isRunning = Bool False, simulationState = Null,
            events = Arr [], events_interval = False, stats_interval = False,
            stats = Obj [(''average_wait_time'', Num 0), (''average_ride_time'', Num 0),
                         (''average_total_time'', Num 0), (''total_completed_trips'', Num 0),
                         (''total_waiting_passengers'', Num 0), (''elevator_utilization'', Obj [])],
            historicalData = [], requests = [], console = [], alerts = [] \<rparr>"

section \<open>Polling effects (\<open>App.js\<close> lines 63-85, \<open>Statistics.jsx\<close> lines 35-71)\<close>

text \<open>
  A call of \<open>fetchEvents\<close> or \<open>fetchStats\<close> runs up to its \<open>await\<close>: the request goes
  out. The rest of the function runs when the request settles (\<open>fetchEvents_settled\<close>,
  \<open>fetchStats_settled\<close> below).
\<close>

definition fetchEvents :: "app \<Rightarrow> app" where
  "fetchEvents st = st\<lparr>requests := requests st @ [GET_events 100]\<rparr>"

definition fetchStats :: "app \<Rightarrow> app" where
  "fetchStats st = st\<lparr>requests := requests st @ [GET_stats]\<rparr>"

text \<open>
  The events effect of \<open>App\<close>, dependency \<open>isRunning\<close>: its body fetches at once and sets
  the 2000 ms interval when \<open>isRunning\<close> is truthy; its cleanup clears the interval if one
  was set.
\<close>

definition events_effect :: "app \<Rightarrow> app" where
  "events_effect st =
     (if truthy (isRunning st) then (fetchEvents st)\<lparr>events_interval := True\<rparr> else st)"

definition events_cleanup :: "app \<Rightarrow> app" where
  "events_cleanup st = (if events_interval st then st\<lparr>events_interval := False\<rparr> else st)"

text \<open>
  The statistics effect of \<open>Statistics\<close>, dependency \<open>simulationState\<close>: the guard of line
  64 is \<open>simulationState && simulationState.time > 0\<close>. A truthy value has properties, so
  the read cannot throw. The cleanup exists only when the body set the 5000 ms interval.
\<close>

definition stats_gate :: "runtime \<Rightarrow> jsval \<Rightarrow> bool" where
  "stats_gate rt v =
     (truthy v \<and> (case get_prop v ''time'' of Inl e \<Rightarrow> False | Inr t \<Rightarrow> gt_zero rt t))"

definition stats_effect :: "runtime \<Rightarrow> app \<Rightarrow> app" where
  "stats_effect rt st =
     (if stats_gate rt (simulationState st) then (fetchStats st)\<lparr>stats_interval := True\<rparr>
      else st)"

definition stats_cleanup :: "app \<Rightarrow> app" where
  "stats_cleanup st = (if stats_interval st then st\<lparr>stats_interval := False\<rparr> else st)"

text \<open>The interval callbacks: a cleared interval never fires.\<close>

definition events_tick :: "app \<Rightarrow> app" where
  "events_tick st = (if events_interval st then fetchEvents st else st)"

definition stats_tick :: "app \<Rightarrow> app" where
  "stats_tick st = (if stats_interval st then fetchStats st else st)"

section \<open>State setters\<close>

text \<open>
  A \<open>useState\<close> setter replaces the cell. React drops the update of a component that is
  not mounted, and after an update that changed the cell it re-runs the effects that
  depend on it: cleanup of the previous run first, then the body.
\<close>

definition setIsRunning :: "jsval \<Rightarrow> app \<Rightarrow> app" where
  "setIsRunning v st =
     (if phase st \<noteq> Mounted then st
      else if changed (isRunning st) v
        then events_effect (events_cleanup (st\<lparr>isRunning := v\<rparr>))
      else st)"

definition setSimulationState :: "runtime \<Rightarrow> jsval \<Rightarrow> app \<Rightarrow> app" where
  "setSimulationState rt v st =
     (if phase st \<noteq> Mounted then st
      else if changed (simulationState st) v
        then stats_effect rt (stats_cleanup (st\<lparr>simulationState := v\<rparr>))
      else st)"

definition setEvents :: "jsval \<Rightarrow> app \<Rightarrow> app" where
  "setEvents v st = (if phase st \<noteq> Mounted then st else st\<lparr>events := v\<rparr>)"

definition setStats :: "jsval \<Rightarrow> app \<Rightarrow> app" where
  "setStats v st = (if phase st \<noteq> Mounted then st else st\<lparr>stats := v\<rparr>)"

text \<open>The functional form \<open>setHistoricalData(prev => ...)\<close>.\<close>

definition setHistoricalData :: "(point list \<Rightarrow> point list) \<Rightarrow> app \<Rightarrow> app" where
  "setHistoricalData f st =
     (if phase st \<noteq> Mounted then st else st\<lparr>historicalData := f (historicalData st)\<rparr>)"

section \<open>Message dispatch (\<open>api.js\<close> lines 126-133, \<open>App.js\<close> lines 21-25)\<close>

text \<open>
  The \<open>onMessage\<close> callback \<open>App\<close> registers: a frame whose \<open>type\<close> is strictly equal to
  \<open>'state_update'\<close> makes its \<open>data\<close> the snapshot; any other value is ignored. Reading
  \<open>data.type\<close> of \<open>null\<close> throws.
\<close>

definition app_onMessage :: "runtime \<Rightarrow> jsval \<Rightarrow> app \<Rightarrow> js_error + app" where
  "app_onMessage rt d st =
     (case get_prop d ''type'' of
        Inl e \<Rightarrow> Inl e
      | Inr t \<Rightarrow>
          if t = Str ''state_update''
          then (case get_prop d ''data'' of
                  Inl e \<Rightarrow> Inl e
                | Inr p \<Rightarrow> Inr (setSimulationState rt p st))
          else Inr st)"

text \<open>
  \<open>ws.onmessage\<close>: the body of the \<open>try\<close> parses the frame and calls the callback if one
  was given; the \<open>catch\<close> logs whatever was thrown and returns normally.
\<close>

definition onmessage_try ::
  "runtime \<Rightarrow> (jsval \<Rightarrow> app \<Rightarrow> js_error + app) option \<Rightarrow> string \<Rightarrow> app \<Rightarrow> js_error + app" where
  "onmessage_try rt onMessage raw st =
     (case JSON_parse rt raw of
        None \<Rightarrow> Inl SyntaxError
      | Some d \<Rightarrow> (case onMessage of None \<Rightarrow> Inr st | Some h \<Rightarrow> h d st))"

definition ws_onmessage ::
  "runtime \<Rightarrow> (jsval \<Rightarrow> app \<Rightarrow> js_error + app) option \<Rightarrow> string \<Rightarrow> app \<Rightarrow> app" where
  "ws_onmessage rt onMessage raw st =
     (case onmessage_try rt onMessage raw st of
        Inl e \<Rightarrow>
          st\<lparr>console := console st @ [Err ''Error parsing WebSocket message:'' (Thrown e)]\<rparr>
      | Inr st' \<Rightarrow> st')"

text \<open>Frames are handled one at a time, in arrival order.\<close>

fun process_frames :: "runtime \<Rightarrow> string list \<Rightarrow> app \<Rightarrow> app" where
  "process_frames rt [] st = st"
| "process_frames rt (raw # frames) st =
     process_frames rt frames (ws_onmessage rt (Some (app_onMessage rt)) raw st)"

text \<open>The envelope kind and the payload of a raw frame, as the handler reads them.\<close>

definition is_state_update :: "runtime \<Rightarrow> string \<Rightarrow> bool" where
  "is_state_update rt raw =
     (case JSON_parse rt raw of
        None \<Rightarrow> False
      | Some d \<Rightarrow> get_prop d ''type'' = Inr (Str ''state_update''))"

definition payload :: "runtime \<Rightarrow> string \<Rightarrow> jsval" where
  "payload rt raw =
     (case JSON_parse rt raw of
        None \<Rightarrow> Undefined
      | Some d \<Rightarrow> (case get_prop d ''data'' of Inl e \<Rightarrow> Undefined | Inr p \<Rightarrow> p))"

text \<open>
  A runtime fixture for the worked examples. Its parser agrees with \<open>JSON.parse\<close> on the
  four texts it accepts and on the truncated text \<open>{"type":\<close>; its coercions are those of a
  plain object (NaN and \<open>[object Object]\<close>), the only values the examples coerce.
\<close>

definition demo_parse :: "string \<Rightarrow> jsval option" where
  \<open>demo_parse raw =
     (if raw = ''{"type":"state_update","data":{"time":1}}''
        then Some (Obj [(''type'', Str ''state_update''), (''data'', Obj [(''time'', Num 1)])])
      else if raw = ''{"type":"state_update","data":{"time":2,"floorCount":25}}''
        then Some (Obj [(''type'', Str ''state_update''),
                        (''data'', Obj [(''time'', Num 2), (''floorCount'', Num 25)])])
      else if raw = ''{"type":"ping"}'' then Some (Obj [(''type'', Str ''ping'')])
      else if raw = ''null'' then Some Null
      else None)\<close>

definition demo_rt :: runtime where
  "demo_rt = \<lparr> JSON_parse = demo_parse, ToNumber = (\<lambda>v. None),
               ToString = (\<lambda>v. ''[object Object]'') \<rparr>"

section \<open>Polling responses (\<open>App.js\<close> lines 66-75, \<open>Statistics.jsx\<close> lines 36-61)\<close>

text \<open>
  The rest of \<open>fetchEvents\<close> once the request settled: the list is replaced when
  \<open>response.data && response.data.events\<close> is truthy; a rejection is logged.
\<close>

definition fetchEvents_settled :: "outcome \<Rightarrow> app \<Rightarrow> app" where
  "fetchEvents_settled out st =
     (case out of
        Ok d \<Rightarrow>
          if truthy d \<and> truthy (field d ''events'') then setEvents (field d ''events'') st
          else st
      | Failed err \<Rightarrow>
          st\<lparr>console := console st @ [Err ''Failed to fetch events:'' (Rejected err)]\<rparr>)"

definition data_point :: "string \<Rightarrow> jsval \<Rightarrow> point" where
  "data_point timestamp d =
     \<lparr> p_time = timestamp,
       waitTime = field d ''average_wait_time'',
       rideTime = field d ''average_ride_time'',
       totalTime = field d ''average_total_time'',
       completedTrips = field d ''total_completed_trips'',
       waitingPassengers = field d ''total_waiting_passengers'' \<rparr>"

text \<open>\<open>newData.slice(-20)\<close>: the last 20 elements, all of them when there are fewer.\<close>

definition slice_last :: "nat \<Rightarrow> 'a list \<Rightarrow> 'a list" where
  "slice_last n xs = drop (length xs - n) xs"

definition push_point :: "point \<Rightarrow> point list \<Rightarrow> point list" where
  "push_point pt prev = slice_last 20 (prev @ [pt])"

text \<open>
  The rest of \<open>fetchStats\<close>; \<open>timestamp\<close> is what \<open>new Date().toLocaleTimeString()\<close>
  returns at that moment.
\<close>

definition fetchStats_settled :: "string \<Rightarrow> outcome \<Rightarrow> app \<Rightarrow> app" where
  "fetchStats_settled timestamp out st =
     (case out of
        Ok d \<Rightarrow>
          if truthy d
          then setHistoricalData (push_point (data_point timestamp d)) (setStats d st)
          else st
      | Failed err \<Rightarrow>
          st\<lparr>console := console st @ [Err ''Failed to fetch statistics:'' (Rejected err)]\<rparr>)"

text \<open>Statistics polls settling one after the other, each with its timestamp.\<close>

fun stats_polls :: "(string \<times> outcome) list \<Rightarrow> app \<Rightarrow> app" where
  "stats_polls [] st = st"
| "stats_polls ((timestamp, out) # polls) st =
     stats_polls polls (fetchStats_settled timestamp out st)"

section \<open>Connection manager (\<open>api.js\<close> lines 94-165)\<close>

text \<open>
  The test of line 106, \<open>activeWebSocket.readyState === WebSocket.OPEN\<close>, reads the
  property from the client object stored in line 162; \<open>WebSocket.OPEN\<close> is the number 1. A
  property the object lacks reads \<open>undefined\<close>, which is strictly equal to no number.
\<close>

definition WebSocket_OPEN :: nat where
  "WebSocket_OPEN = 1"

definition reads_open :: "client \<Rightarrow> bool" where
  "reads_open c = (map_of client_members ''readyState'' = Some (Number WebSocket_OPEN))"

text \<open>
  \<open>WebSocket.close()\<close> of the browser: a socket that is connecting or open starts its
  closing handshake; one that is closing or closed is left alone.
\<close>

definition socket_close :: "nat \<Rightarrow> app \<Rightarrow> app" where
  "socket_close i st =
     (if i < length (sockets st) \<and> (sockets st ! i = CONNECTING \<or> sockets st ! i = OPEN)
      then st\<lparr>sockets := (sockets st)[i := CLOSING]\<rparr>
      else st)"

text \<open>\<open>client.close\<close>, lines 154-157.\<close>

definition client_close :: "client \<Rightarrow> app \<Rightarrow> app" where
  "client_close c st = (socket_close (ws c) st)\<lparr>activeWebSocket := None\<rparr>"

text \<open>
  Lines 118-164: a new socket is constructed (it starts connecting), the four handlers
  are attached to it, and the client wrapping it becomes \<open>activeWebSocket\<close>. The handlers
  are \<open>ws_onopen\<close>, \<open>ws_onmessage\<close> and \<open>ws_onclose\<close>, which take the callbacks of the
  caller as arguments; \<open>App.js\<close> is the only caller.
\<close>

definition new_connection :: "app \<Rightarrow> client \<times> app" where
  "new_connection st =
     (let c = \<lparr> ws = length (sockets st) \<rparr>
      in (c, st\<lparr>console := console st @ [Log ''Creating new WebSocket connection''],
                sockets := sockets st @ [CONNECTING],
                activeWebSocket := Some c\<rparr>))"

definition createWebSocketClient :: "app \<Rightarrow> client \<times> app" where
  "createWebSocketClient st =
     (case activeWebSocket st of
        None \<Rightarrow> new_connection st
      | Some c \<Rightarrow>
          if reads_open c
          then (c, st\<lparr>console := console st @ [Log ''Reusing existing WebSocket connection'']\<rparr>)
          else new_connection
                 ((client_close c
                     (st\<lparr>console := console st @
                          [Log ''Closing existing WebSocket connection before creating a new one'']\<rparr>))
                  \<lparr>activeWebSocket := None\<rparr>))"

definition ws_onopen :: "(app \<Rightarrow> app) option \<Rightarrow> app \<Rightarrow> app" where
  "ws_onopen onConnect st =
     (let st1 = st\<lparr>console := console st @ [Log ''WebSocket connection established'']\<rparr>
      in case onConnect of None \<Rightarrow> st1 | Some h \<Rightarrow> h st1)"

text \<open>
  \<open>ws.onclose\<close>, lines 135-139; \<open>detail\<close> is the text of \<open>event.code\<close> and
  \<open>event.reason\<close>. Nothing in the handler tells how the socket came to close.
\<close>

definition ws_onclose :: "(app \<Rightarrow> app) option \<Rightarrow> string \<Rightarrow> app \<Rightarrow> app" where
  "ws_onclose onDisconnect detail st =
     (let st1 = st\<lparr>console := console st @ [Log (''WebSocket connection closed: '' @ detail)],
                  activeWebSocket := None\<rparr>
      in case onDisconnect of None \<Rightarrow> st1 | Some h \<Rightarrow> h st1)"

section \<open>The connection effect of \<open>App\<close> (\<open>App.js\<close> lines 16-46)\<close>

definition reconnect_delay :: nat where
  "reconnect_delay = 3000"

text \<open>\<open>setTimeout(callback, ms)\<close>: the callback is pending until \<open>ms\<close> from now.\<close>

definition setTimeout :: "nat \<Rightarrow> app \<Rightarrow> app" where
  "setTimeout ms st = st\<lparr>timeouts := timeouts st @ [clock st + ms]\<rparr>"

definition app_onConnect :: "app \<Rightarrow> app" where
  "app_onConnect st = st\<lparr>console := console st @ [Log ''WebSocket connected'']\<rparr>"

definition app_onDisconnect :: "app \<Rightarrow> app" where
  "app_onDisconnect st =
     setTimeout reconnect_delay (st\<lparr>console := console st @ [Log ''WebSocket disconnected'']\<rparr>)"

text \<open>The callback given to \<open>setTimeout\<close>, lines 30-33.\<close>

definition reconnect_callback :: "app \<Rightarrow> app" where
  "reconnect_callback st =
     st\<lparr>console := console st @ [Log ''Attempting to reconnect WebSocket...''],
        wsClientRef := None\<rparr>"

text \<open>The effect body, lines 19-36, and its cleanup, lines 39-45. The dependency array is empty.\<close>

definition connection_effect :: "app \<Rightarrow> app" where
  "connection_effect st =
     (case wsClientRef st of
        None \<Rightarrow> (let (c, st') = createWebSocketClient st in st'\<lparr>wsClientRef := Some c\<rparr>)
      | Some c \<Rightarrow> st)"

definition connection_cleanup :: "app \<Rightarrow> app" where
  "connection_cleanup st =
     (case wsClientRef st of
        None \<Rightarrow> st
      | Some c \<Rightarrow>
          (client_close c
             (st\<lparr>console := console st @ [Log ''Closing WebSocket connection on unmount'']\<rparr>))
          \<lparr>wsClientRef := None\<rparr>)"

section \<open>Commands (\<open>App.js\<close> lines 48-117, \<open>Controls\<close> lines 76-89)\<close>

text \<open>
  Each handler runs up to its \<open>await\<close>, where the request goes out, and resumes when the
  request settles. \<open>error.response?.data?.detail\<close> is the detail the server provided.
\<close>

definition error_detail :: "axios_error \<Rightarrow> jsval" where
  "error_detail err = (case response err of None \<Rightarrow> Undefined | Some d \<Rightarrow> field d ''detail'')"

text \<open>
  The argument of \<open>alert\<close> in lines 94 and 87, \<open>prefix + detail || error.message\<close>:
  \<open>+\<close> binds tighter than \<open>||\<close>, so the concatenation is the left operand of \<open>||\<close>, and
  the right operand is taken only if that string is falsy.
\<close>

definition failure_text :: "runtime \<Rightarrow> string \<Rightarrow> axios_error \<Rightarrow> string" where
  "failure_text rt prefix err =
     (let s = prefix @ js_to_string rt (error_detail err)
      in if truthy (Str s) then s else message err)"

definition alert :: "string \<Rightarrow> app \<Rightarrow> app" where
  "alert text st = st\<lparr>alerts := alerts st @ [text]\<rparr>"

definition console_error :: "string \<Rightarrow> thrown \<Rightarrow> app \<Rightarrow> app" where
  "console_error text caught st = st\<lparr>console := console st @ [Err text caught]\<rparr>"

definition handleStartSimulation :: "jsval \<Rightarrow> app \<Rightarrow> app" where
  "handleStartSimulation config st = st\<lparr>requests := requests st @ [POST_start config]\<rparr>"

definition handleStartSimulation_settled :: "runtime \<Rightarrow> outcome \<Rightarrow> app \<Rightarrow> app" where
  "handleStartSimulation_settled rt out st =
     (case out of
        Ok d \<Rightarrow> setIsRunning (Bool True) st
      | Failed err \<Rightarrow>
          alert (failure_text rt ''Failed to start simulation: '' err)
            (console_error ''Failed to start simulation:'' (Rejected err) st))"

definition handleStopSimulation :: "app \<Rightarrow> app" where
  "handleStopSimulation st = st\<lparr>requests := requests st @ [POST_stop]\<rparr>"

definition handleStopSimulation_settled :: "outcome \<Rightarrow> app \<Rightarrow> app" where
  "handleStopSimulation_settled out st =
     (case out of
        Ok d \<Rightarrow> setIsRunning (Bool False) st
      | Failed err \<Rightarrow> console_error ''Failed to stop simulation:'' (Rejected err) st)"

definition handleResetSimulation :: "app \<Rightarrow> app" where
  "handleResetSimulation st = st\<lparr>requests := requests st @ [POST_reset]\<rparr>"

definition handleResetSimulation_settled :: "runtime \<Rightarrow> outcome \<Rightarrow> app \<Rightarrow> app" where
  "handleResetSimulation_settled rt out st =
     (case out of
        Ok d \<Rightarrow> setSimulationState rt Null (setEvents (Arr []) st)
      | Failed err \<Rightarrow> console_error ''Failed to reset simulation:'' (Rejected err) st)"

text \<open>The status query of lines 49-60; reading \<open>running\<close> of a null body throws into the \<open>catch\<close>.\<close>

definition fetchStatus :: "app \<Rightarrow> app" where
  "fetchStatus st = st\<lparr>requests := requests st @ [GET_status]\<rparr>"

definition fetchStatus_settled :: "outcome \<Rightarrow> app \<Rightarrow> app" where
  "fetchStatus_settled out st =
     (case out of
        Ok d \<Rightarrow>
          (case get_prop d ''running'' of
             Inl e \<Rightarrow> console_error ''Failed to fetch simulation status:'' (Thrown e) st
           | Inr v \<Rightarrow> setIsRunning v st)
      | Failed err \<Rightarrow> console_error ''Failed to fetch simulation status:'' (Rejected err) st)"

text \<open>Strict equality \<open>===\<close> of two numbers: NaN equals nothing, itself included.\<close>

fun strict_eq :: "parsed_int \<Rightarrow> parsed_int \<Rightarrow> bool" where
  "strict_eq (Parsed a) (Parsed b) = (a = b)"
| "strict_eq a b = False"

text \<open>
  \<open>handleAddPassenger\<close> of \<open>Controls\<close>, given the two floors held in \<open>customPassenger\<close>:
  the guard of line 78 returns before the \<open>try\<close>; otherwise \<open>api.addPassenger\<close> posts.
\<close>

definition handleAddPassenger :: "parsed_int \<Rightarrow> parsed_int \<Rightarrow> app \<Rightarrow> app" where
  "handleAddPassenger start_floor destination_floor st =
     (if strict_eq start_floor destination_floor
      then alert ''Start and destination floors must be different'' st
      else st\<lparr>requests := requests st @ [POST_passengers start_floor destination_floor]\<rparr>)"

definition handleAddPassenger_settled :: "runtime \<Rightarrow> outcome \<Rightarrow> app \<Rightarrow> app" where
  "handleAddPassenger_settled rt out st =
     (case out of
        Ok d \<Rightarrow> st
      | Failed err \<Rightarrow>
          alert (failure_text rt ''Failed to add passenger: '' err)
            (console_error ''Failed to add passenger:'' (Rejected err) st))"

text \<open>\<open>api.addPassenger\<close> itself, \<open>api.js\<close> lines 66-71, posts whatever it is given.\<close>

definition api_addPassenger :: "parsed_int \<Rightarrow> parsed_int \<Rightarrow> app \<Rightarrow> app" where
  "api_addPassenger startFloor destinationFloor st =
     st\<lparr>requests := requests st @ [POST_passengers startFloor destinationFloor]\<rparr>"

section \<open>The event loop\<close>

text \<open>
  Mounting runs the effects of the children before those of \<open>App\<close>: \<open>Controls\<close> loads the
  configuration, \<open>Statistics\<close> runs its effect on the null snapshot, then \<open>App\<close> opens the
  connection, queries the status and runs the events effect. Unmounting runs the cleanups.
\<close>

definition mount :: "runtime \<Rightarrow> app \<Rightarrow> app" where
  "mount rt st =
     (if phase st \<noteq> Fresh then st
      else events_effect (fetchStatus (connection_effect (stats_effect rt
             (st\<lparr>phase := Mounted, requests := requests st @ [GET_config]\<rparr>)))))"

definition unmount :: "app \<Rightarrow> app" where
  "unmount st =
     (if phase st \<noteq> Mounted then st
      else (events_cleanup (connection_cleanup (stats_cleanup st)))\<lparr>phase := Unmounted\<rparr>)"

text \<open>
  What the browser, the server and the user can do. A socket event names the socket; the
  browser moves the socket to its new state before it calls the handler, delivers frames
  only on an open socket, and fires a timeout only once it is due. A settlement may arrive
  for any request.
\<close>

datatype event =
    Mount
  | Unmount
  | SocketOpen nat
  | SocketMessage nat string
  | SocketClose nat string
  | Advance nat
  | FireTimeout nat
  | StatusSettled outcome
  | EventsTick
  | EventsSettled outcome
  | StatsTick
  | StatsSettled string outcome
  | StartClick jsval
  | StartSettled outcome
  | StopClick
  | StopSettled outcome
  | ResetClick
  | ResetSettled outcome

fun step :: "runtime \<Rightarrow> event \<Rightarrow> app \<Rightarrow> app" where
  "step rt Mount st = mount rt st"
| "step rt Unmount st = unmount st"
| "step rt (SocketOpen i) st =
     (if i < length (sockets st) \<and> sockets st ! i = CONNECTING
      then ws_onopen (Some app_onConnect) (st\<lparr>sockets := (sockets st)[i := OPEN]\<rparr>)
      else st)"
| "step rt (SocketMessage i raw) st =
     (if i < length (sockets st) \<and> sockets st ! i = OPEN
      then ws_onmessage rt (Some (app_onMessage rt)) raw st
      else st)"
| "step rt (SocketClose i detail) st =
     (if i < length (sockets st) \<and> sockets st ! i \<noteq> CLOSED
      then ws_onclose (Some app_onDisconnect) detail (st\<lparr>sockets := (sockets st)[i := CLOSED]\<rparr>)
      else st)"
| "step rt (Advance ms) st = st\<lparr>clock := clock st + ms\<rparr>"
| "step rt (FireTimeout k) st =
     (if k < length (timeouts st) \<and> timeouts st ! k \<le> clock st
      then reconnect_callback (st\<lparr>timeouts := take k (timeouts st) @ drop (Suc k) (timeouts st)\<rparr>)
      else st)"
| "step rt (StatusSettled out) st = fetchStatus_settled out st"
| "step rt EventsTick st = events_tick st"
| "step rt (EventsSettled out) st = fetchEvents_settled out st"
| "step rt StatsTick st = stats_tick st"
| "step rt (StatsSettled timestamp out) st = fetchStats_settled timestamp out st"
| "step rt (StartClick config) st = handleStartSimulation config st"
| "step rt (StartSettled out) st = handleStartSimulation_settled rt out st"
| "step rt StopClick st = handleStopSimulation st"
| "step rt (StopSettled out) st = handleStopSimulation_settled out st"
| "step rt ResetClick st = handleResetSimulation st"
| "step rt (ResetSettled out) st = handleResetSimulation_settled rt out st"

fun run :: "runtime \<Rightarrow> event list \<Rightarrow> app \<Rightarrow> app" where
  "run rt [] st = st"
| "run rt (e # es) st = run rt es (step rt e st)"

text \<open>
  The polling invariant the code keeps: the events interval is set exactly while \<open>App\<close>
  is mounted with a truthy \<open>isRunning\<close>, the statistics interval exactly while it is
  mounted with a snapshot that passes the guard of \<open>Statistics\<close>.
\<close>

definition poll_inv :: "runtime \<Rightarrow> app \<Rightarrow> bool" where
  "poll_inv rt st =
     ((events_interval st \<longleftrightarrow> phase st = Mounted \<and> truthy (isRunning st)) \<and>
      (stats_interval st \<longleftrightarrow> phase st = Mounted \<and> stats_gate rt (simulationState st)))"

text \<open>The requests a step adds to those already sent.\<close>

definition issued :: "runtime \<Rightarrow> event \<Rightarrow> app \<Rightarrow> request list" where
  "issued rt e st = drop (length (requests st)) (requests (step rt e st))"

section \<open>Properties of the message dispatch\<close>

lemma unchanged_eq: "\<not> changed old new \<Longrightarrow> old = new"
  by (cases new) auto

lemma setSimulationState_snapshot:
  "phase st = Mounted \<Longrightarrow> simulationState (setSimulationState rt v st) = v"
  by (auto simp: setSimulationState_def stats_effect_def stats_cleanup_def fetchStats_def
        dest: unchanged_eq)

lemma setSimulationState_phase: "phase (setSimulationState rt v st) = phase st"
  by (simp add: setSimulationState_def stats_effect_def stats_cleanup_def fetchStats_def)

lemma onmessage_phase: "phase (ws_onmessage rt (Some (app_onMessage rt)) raw st) = phase st"
  by (simp add: ws_onmessage_def onmessage_try_def app_onMessage_def setSimulationState_phase
        split: option.splits sum.splits)

lemma get_prop_total: "get_prop d name = Inr v \<Longrightarrow> get_prop d name' \<noteq> Inl e"
  by (cases d) (auto split: option.splits)

lemma onmessage_state_update:
  "phase st = Mounted \<Longrightarrow> is_state_update rt raw \<Longrightarrow>
   simulationState (ws_onmessage rt (Some (app_onMessage rt)) raw st) = payload rt raw"
  by (auto simp: is_state_update_def ws_onmessage_def onmessage_try_def app_onMessage_def
        payload_def setSimulationState_snapshot split: option.splits sum.splits
        dest: get_prop_total)

text \<open>
  C1: for every non-empty sequence of pushed frames whose envelope kind is \<open>state_update\<close>,
  once the message handler of the mounted \<open>App\<close> has processed the sequence, the snapshot
  held is the \<open>data\<close> of the last frame. Every frame replaces the snapshot as a whole:
  nothing of the previous snapshot enters the result.
\<close>

theorem state_update_last_wins:
  "phase st = Mounted \<Longrightarrow> frames \<noteq> [] \<Longrightarrow> \<forall>raw \<in> set frames. is_state_update rt raw \<Longrightarrow>
   simulationState (process_frames rt frames st) = payload rt (last frames)"
proof (induction frames arbitrary: st)
  case Nil
  then show ?case by simp
next
  case (Cons raw frames)
  let ?st = "ws_onmessage rt (Some (app_onMessage rt)) raw st"
  have ph: "phase ?st = Mounted" using Cons.prems(1) by (simp add: onmessage_phase)
  show ?case
  proof (cases "frames = []")
    case True
    with Cons.prems show ?thesis by (simp add: onmessage_state_update)
  next
    case False
    with Cons.prems Cons.IH [OF ph] show ?thesis by simp
  qed
qed


theorem state_update_last_wins_witness:
  \<open>simulationState
     (process_frames demo_rt
        [''{"type":"state_update","data":{"time":2,"floorCount":25}}'',
         ''{"type":"state_update","data":{"time":1}}'']
        (init\<lparr>phase := Mounted\<rparr>)) = Obj [(''time'', Num 1)]\<close>
proof -
  have ph: "phase (init\<lparr>phase := Mounted\<rparr>) = Mounted" by simp
  have a: \<open>is_state_update demo_rt ''{"type":"state_update","data":{"time":2,"floorCount":25}}''\<close>
    by (simp add: is_state_update_def demo_rt_def demo_parse_def)
  have b: \<open>is_state_update demo_rt ''{"type":"state_update","data":{"time":1}}''\<close>
    by (simp add: is_state_update_def demo_rt_def demo_parse_def)
  have c: \<open>payload demo_rt ''{"type":"state_update","data":{"time":1}}'' = Obj [(''time'', Num 1)]\<close>
    by (simp add: payload_def demo_rt_def demo_parse_def)
  show ?thesis
    using state_update_last_wins [where st = "init\<lparr>phase := Mounted\<rparr>" and rt = demo_rt
      and frames = \<open>[''{"type":"state_update","data":{"time":2,"floorCount":25}}'',
        ''{"type":"state_update","data":{"time":1}}'']\<close>, OF ph] a b c
    by simp
qed

lemma setSimulationState_console:
  "(setSimulationState rt v (st\<lparr>console := c'\<rparr>))\<lparr>console := c\<rparr> =
   (setSimulationState rt v st)\<lparr>console := c\<rparr>"
  by (simp add: setSimulationState_def stats_effect_def stats_cleanup_def fetchStats_def)

lemma onmessage_console:
  "(ws_onmessage rt (Some (app_onMessage rt)) raw (st\<lparr>console := c'\<rparr>))\<lparr>console := c\<rparr> =
   (ws_onmessage rt (Some (app_onMessage rt)) raw st)\<lparr>console := c\<rparr>"
  by (simp add: ws_onmessage_def onmessage_try_def app_onMessage_def setSimulationState_console
        split: option.splits sum.splits)

lemma process_frames_console:
  "(process_frames rt frames (st\<lparr>console := c'\<rparr>))\<lparr>console := c\<rparr> =
   (process_frames rt frames st)\<lparr>console := c\<rparr>"
proof (induction frames arbitrary: st c')
  case Nil
  show ?case by simp
next
  case (Cons raw frames)
  define A where "A = ws_onmessage rt (Some (app_onMessage rt)) raw (st\<lparr>console := c'\<rparr>)"
  define B where "B = ws_onmessage rt (Some (app_onMessage rt)) raw st"
  have "A\<lparr>console := console A\<rparr> = B\<lparr>console := console A\<rparr>"
    unfolding A_def B_def by (rule onmessage_console)
  then have AB: "A = B\<lparr>console := console A\<rparr>" by simp
  have "(process_frames rt frames A)\<lparr>console := c\<rparr> =
        (process_frames rt frames (B\<lparr>console := console A\<rparr>))\<lparr>console := c\<rparr>"
    using arg_cong [OF AB, of "\<lambda>x. (process_frames rt frames x)\<lparr>console := c\<rparr>"] .
  also have "\<dots> = (process_frames rt frames B)\<lparr>console := c\<rparr>"
    by (rule Cons.IH)
  finally show ?case by (simp only: process_frames.simps A_def B_def)
qed

text \<open>
  C7: a frame whose text does not parse is dropped. The \<open>try\<close> body ends in the
  SyntaxError, the handler returns normally with one error line logged and nothing else
  changed, in particular the snapshot; and the frames that follow are processed as if the
  malformed frame had not arrived (the two runs differ in the console alone).
\<close>

theorem malformed_frame_dropped:
  "JSON_parse rt raw = None \<Longrightarrow>
   onmessage_try rt onMessage raw st = Inl SyntaxError \<and>
   ws_onmessage rt onMessage raw st =
     st\<lparr>console := console st @ [Err ''Error parsing WebSocket message:'' (Thrown SyntaxError)]\<rparr> \<and>
   simulationState (ws_onmessage rt onMessage raw st) = simulationState st \<and>
   (process_frames rt (raw # frames) st)\<lparr>console := c\<rparr> =
     (process_frames rt frames st)\<lparr>console := c\<rparr>"
proof -
  assume p: "JSON_parse rt raw = None"
  have a: "ws_onmessage rt onMessage raw st =
     st\<lparr>console := console st @ [Err ''Error parsing WebSocket message:'' (Thrown SyntaxError)]\<rparr>" for onMessage
    using p by (simp add: ws_onmessage_def onmessage_try_def)
  let ?st = "st\<lparr>console := console st @ [Err ''Error parsing WebSocket message:'' (Thrown SyntaxError)]\<rparr>"
  have "(process_frames rt frames ?st)\<lparr>console := c\<rparr> =
     (process_frames rt frames st)\<lparr>console := c\<rparr>"
    by (rule process_frames_console)
  then have b: "(process_frames rt (raw # frames) st)\<lparr>console := c\<rparr> =
     (process_frames rt frames st)\<lparr>console := c\<rparr>"
    by (simp only: process_frames.simps a)
  have t: "onmessage_try rt onMessage raw st = Inl SyntaxError"
    using p by (simp add: onmessage_try_def)
  have s: "simulationState (ws_onmessage rt onMessage raw st) = simulationState st"
    by (simp add: a)
  show ?thesis by (rule conjI [OF t conjI [OF a conjI [OF s b]]])
qed


theorem malformed_frame_dropped_witness:
  \<open>ws_onmessage demo_rt (Some (app_onMessage demo_rt)) ''{"type":''
     (init\<lparr>phase := Mounted, simulationState := Num 7\<rparr>) =
   init\<lparr>phase := Mounted, simulationState := Num 7,
        console := [Err ''Error parsing WebSocket message:'' (Thrown SyntaxError)]\<rparr> \<and>
   (process_frames demo_rt [''{"type":'', ''{"type":"ping"}'']
        (init\<lparr>phase := Mounted, simulationState := Num 7\<rparr>))\<lparr>console := []\<rparr> =
   (process_frames demo_rt [''{"type":"ping"}'']
        (init\<lparr>phase := Mounted, simulationState := Num 7\<rparr>))\<lparr>console := []\<rparr>\<close>
proof -
  let ?st = "init\<lparr>phase := Mounted, simulationState := Num 7\<rparr>"
  have p: \<open>JSON_parse demo_rt ''{"type":'' = None\<close>
    by (simp add: demo_rt_def demo_parse_def)
  note m = malformed_frame_dropped [OF p, where onMessage = "Some (app_onMessage demo_rt)"
      and st = ?st and frames = \<open>[''{"type":"ping"}'']\<close> and c = "[]"]
  from m have \<open>ws_onmessage demo_rt (Some (app_onMessage demo_rt)) ''{"type":'' ?st =
      ?st\<lparr>console := console ?st @ [Err ''Error parsing WebSocket message:'' (Thrown SyntaxError)]\<rparr>\<close>
    by (rule conjunct1 [OF conjunct2])
  also have "\<dots> = init\<lparr>phase := Mounted, simulationState := Num 7,
        console := [Err ''Error parsing WebSocket message:'' (Thrown SyntaxError)]\<rparr>"
    by (simp add: init_def)
  finally have 1: \<open>ws_onmessage demo_rt (Some (app_onMessage demo_rt)) ''{"type":'' ?st =
      init\<lparr>phase := Mounted, simulationState := Num 7,
        console := [Err ''Error parsing WebSocket message:'' (Thrown SyntaxError)]\<rparr>\<close> .
  from m have 2: \<open>(process_frames demo_rt [''{"type":'', ''{"type":"ping"}''] ?st)\<lparr>console := []\<rparr> =
      (process_frames demo_rt [''{"type":"ping"}''] ?st)\<lparr>console := []\<rparr>\<close>
    by (rule conjunct2 [OF conjunct2 [OF conjunct2]])
  show ?thesis by (rule conjI [OF 1 2])
qed

section \<open>Properties of the polling responses\<close>

lemma field_lacking: "map_of kvs name = None \<Longrightarrow> field (Obj kvs) name = Undefined"
  by (simp add: field_def)

text \<open>
  C10: an events poll that succeeds leaves the event list alone unless the body is truthy
  and has a truthy \<open>events\<close> field: a body without the field, an absent or null body and
  the empty text of an empty response change nothing, and whenever the list does change it
  has become the \<open>events\<close> field of a truthy body.
\<close>

theorem events_replaced_only_when_present:
  "(map_of kvs ''events'' = None \<longrightarrow> fetchEvents_settled (Ok (Obj kvs)) st = st) \<and>
   fetchEvents_settled (Ok Undefined) st = st \<and>
   fetchEvents_settled (Ok Null) st = st \<and>
   fetchEvents_settled (Ok (Str [])) st = st \<and>
   (\<not> (truthy d \<and> truthy (field d ''events'')) \<longrightarrow> fetchEvents_settled (Ok d) st = st) \<and>
   (events (fetchEvents_settled (Ok d) st) \<noteq> events st \<longrightarrow>
      truthy d \<and> truthy (field d ''events'') \<and>
      events (fetchEvents_settled (Ok d) st) = field d ''events'') \<and>
   (phase st = Mounted \<and> truthy d \<and> truthy (field d ''events'') \<longrightarrow>
      fetchEvents_settled (Ok d) st = st\<lparr>events := field d ''events''\<rparr>)"
  by (simp add: fetchEvents_settled_def setEvents_def field_lacking)

theorem events_replaced_only_when_present_witness:
  "fetchEvents_settled (Ok (Obj [(''total'', Num 3)])) (init\<lparr>phase := Mounted, events := Arr [Num 1]\<rparr>) =
     init\<lparr>phase := Mounted, events := Arr [Num 1]\<rparr> \<and>
   fetchEvents_settled (Ok (Obj [(''events'', Arr [])])) (init\<lparr>phase := Mounted, events := Arr [Num 1]\<rparr>) =
     init\<lparr>phase := Mounted, events := Arr []\<rparr>"
  using events_replaced_only_when_present [of "[(''total'', Num 3)]"
      "init\<lparr>phase := Mounted, events := Arr [Num 1]\<rparr>" "Obj [(''events'', Arr [])]"]
  by (simp add: field_def)

lemma slice_last_length: "length (slice_last n xs) = min n (length xs)"
  by (simp add: slice_last_def)

lemma push_point_length: "length (push_point pt prev) = min 20 (Suc (length prev))"
  by (simp add: push_point_def slice_last_length)

lemma push_point_last: "last (push_point pt prev) = pt"
  by (simp add: push_point_def slice_last_def)

lemma push_point_room: "length prev < 20 \<Longrightarrow> push_point pt prev = prev @ [pt]"
  by (simp add: push_point_def slice_last_def)

lemma push_point_full: "length prev = 20 \<Longrightarrow> push_point pt prev = tl prev @ [pt]"
  by (cases prev) (simp_all add: push_point_def slice_last_def)

lemma fetchStats_settled_history:
  "phase st = Mounted \<Longrightarrow> truthy d \<Longrightarrow>
   historicalData (fetchStats_settled timestamp (Ok d) st) =
     push_point (data_point timestamp d) (historicalData st)"
  by (simp add: fetchStats_settled_def setHistoricalData_def setStats_def)

lemma fetchStats_settled_bound:
  "length (historicalData st) \<le> 20 \<Longrightarrow>
   length (historicalData (fetchStats_settled timestamp out st)) \<le> 20"
  by (cases out)
    (simp_all add: fetchStats_settled_def setHistoricalData_def setStats_def push_point_length)

lemma stats_polls_bound:
  "length (historicalData st) \<le> 20 \<Longrightarrow> length (historicalData (stats_polls polls st)) \<le> 20"
proof (induction polls arbitrary: st)
  case Nil
  then show ?case by simp
next
  case (Cons p polls)
  obtain timestamp out where p: "p = (timestamp, out)" by (cases p)
  have "length (historicalData (fetchStats_settled timestamp out st)) \<le> 20"
    using Cons.prems by (rule fetchStats_settled_bound)
  then show ?case unfolding p by (simp add: Cons.IH)
qed

text \<open>
  C9: a statistics poll that succeeds with a body appends exactly one point, the one
  derived from that body, to the rolling history of the mounted component and keeps the
  last 20: with room left the history grows by the point, and a history of 20 loses its
  oldest point. Whatever the polls return, a history of at most 20 points stays so.
\<close>

theorem history_capped_at_20:
  "phase st = Mounted \<Longrightarrow> truthy d \<Longrightarrow>
   historicalData (fetchStats_settled timestamp (Ok d) st) =
     slice_last 20 (historicalData st @ [data_point timestamp d]) \<and>
   last (historicalData (fetchStats_settled timestamp (Ok d) st)) = data_point timestamp d \<and>
   length (historicalData (fetchStats_settled timestamp (Ok d) st)) =
     min 20 (Suc (length (historicalData st))) \<and>
   (length (historicalData st) < 20 \<longrightarrow>
      historicalData (fetchStats_settled timestamp (Ok d) st) =
        historicalData st @ [data_point timestamp d]) \<and>
   (length (historicalData st) = 20 \<longrightarrow>
      historicalData (fetchStats_settled timestamp (Ok d) st) =
        tl (historicalData st) @ [data_point timestamp d]) \<and>
   (length (historicalData st) \<le> 20 \<longrightarrow>
      length (historicalData (stats_polls polls st)) \<le> 20)"
proof -
  assume m: "phase st = Mounted" and t: "truthy d"
  note h = fetchStats_settled_history [OF m t, of timestamp]
  show ?thesis
    unfolding h
    by (simp add: push_point_length push_point_last push_point_room push_point_full
          stats_polls_bound)
      (simp add: push_point_def)
qed

theorem history_capped_at_20_witness:
  "historicalData
     (fetchStats_settled ''12:00:05''
        (Ok (Obj [(''average_wait_time'', Num 4), (''average_ride_time'', Num 9),
                  (''average_total_time'', Num 13), (''total_completed_trips'', Num 2),
                  (''total_waiting_passengers'', Num 1),
                  (''elevator_utilization'', Obj [(''0'', Num 1)])]))
        (init\<lparr>phase := Mounted,
              historicalData := data_point ''12:00:00'' (stats init) #
                                replicate 19 (data_point ''12:00:01'' (stats init))\<rparr>)) =
   replicate 19 (data_point ''12:00:01'' (stats init)) @
     [\<lparr>p_time = ''12:00:05'', waitTime = Num 4, rideTime = Num 9, totalTime = Num 13,
       completedTrips = Num 2, waitingPassengers = Num 1\<rparr>]"
proof -
  let ?body = "Obj [(''average_wait_time'', Num 4), (''average_ride_time'', Num 9),
                  (''average_total_time'', Num 13), (''total_completed_trips'', Num 2),
                  (''total_waiting_passengers'', Num 1),
                  (''elevator_utilization'', Obj [(''0'', Num 1)])]"
  let ?st = "init\<lparr>phase := Mounted,
              historicalData := data_point ''12:00:00'' (stats init) #
                                replicate 19 (data_point ''12:00:01'' (stats init))\<rparr>"
  have m: "phase ?st = Mounted" by simp
  have t: "truthy ?body" by simp
  have l: "length (historicalData ?st) = 20" by simp
  have p: "data_point ''12:00:05'' ?body =
     \<lparr>p_time = ''12:00:05'', waitTime = Num 4, rideTime = Num 9, totalTime = Num 13,
       completedTrips = Num 2, waitingPassengers = Num 1\<rparr>"
    by (simp add: data_point_def field_def)
  from history_capped_at_20 [OF m t, of "''12:00:05''" "[]"] l
  have "historicalData (fetchStats_settled ''12:00:05'' (Ok ?body) ?st) =
        tl (historicalData ?st) @ [data_point ''12:00:05'' ?body]"
    by blast
  then show ?thesis unfolding p by simp
qed

section \<open>Properties of the commands\<close>

text \<open>
  C8: submitting the passenger form with the start floor equal to the destination floor
  (floor 5 to floor 5, say) sends nothing: the handler raises the validation alert before
  its \<open>try\<close> and returns, with the list of requests as it was.
\<close>

theorem same_floor_rejected_locally:
  "handleAddPassenger (Parsed n) (Parsed n) st =
     st\<lparr>alerts := alerts st @ [''Start and destination floors must be different'']\<rparr> \<and>
   requests (handleAddPassenger (Parsed n) (Parsed n) st) = requests st"
  by (simp add: handleAddPassenger_def alert_def)

theorem same_floor_rejected_locally_witness:
  "requests (handleAddPassenger (Parsed 5) (Parsed 5) init) = [] \<and>
   alerts (handleAddPassenger (Parsed 5) (Parsed 5) init) =
     [''Start and destination floors must be different'']"
  using same_floor_rejected_locally [of 5 init] by (simp add: init_def)

lemma different_floors_posted:
  "a \<noteq> b \<Longrightarrow> handleAddPassenger (Parsed a) (Parsed b) st =
     st\<lparr>requests := requests st @ [POST_passengers (Parsed a) (Parsed b)]\<rparr>"
  by (simp add: handleAddPassenger_def)

lemma api_addPassenger_unguarded:
  "requests (api_addPassenger (Parsed 5) (Parsed 5) st) =
     requests st @ [POST_passengers (Parsed 5) (Parsed 5)]"
  by (simp add: api_addPassenger_def)

lemma failure_text_prefix:
  "prefix \<noteq> [] \<Longrightarrow> failure_text rt prefix err = prefix @ js_to_string rt (error_detail err)"
  by (simp add: failure_text_def Let_def)

lemma start_failure_hides_transport_error:
  "alerts (handleStartSimulation_settled rt
             (Failed \<lparr>message = ''Network Error'', response = None\<rparr>) st) =
     alerts st @ [''Failed to start simulation: undefined'']"
  by (simp add: handleStartSimulation_settled_def alert_def console_error_def failure_text_def
        error_detail_def)

text \<open>
  C6 as stated fails at a stop request that the server rejects with a detail: the handler
  logs the rejection and returns; no message reaches the operator, and the same holds for
  reset.
\<close>

theorem stop_failure_not_surfaced:
  "handleStopSimulation_settled
     (Failed \<lparr>message = ''Request failed with status code 500'',
              response = Some (Obj [(''detail'', Str ''Simulation is not running'')])\<rparr>) init =
   init\<lparr>console := [Err ''Failed to stop simulation:''
        (Rejected \<lparr>message = ''Request failed with status code 500'',
                   response = Some (Obj [(''detail'', Str ''Simulation is not running'')])\<rparr>)]\<rparr> \<and>
   alerts (handleStopSimulation_settled
     (Failed \<lparr>message = ''Request failed with status code 500'',
              response = Some (Obj [(''detail'', Str ''Simulation is not running'')])\<rparr>) init) = []"
  by (simp add: handleStopSimulation_settled_def console_error_def init_def)

text \<open>
  C6, amended: when a start, stop or reset request fails, the running flag, the snapshot
  and the event list are unchanged and the rejection is logged to the console with its
  error. Stop and reset do nothing else. A failed start also raises one alert, which
  begins \<open>Failed to start simulation: \<close> and continues with the detail the server
  provided when there is one.
\<close>

theorem command_failure_keeps_state:
  "handleStopSimulation_settled (Failed err) st =
     st\<lparr>console := console st @ [Err ''Failed to stop simulation:'' (Rejected err)]\<rparr> \<and>
   handleResetSimulation_settled rt (Failed err) st =
     st\<lparr>console := console st @ [Err ''Failed to reset simulation:'' (Rejected err)]\<rparr> \<and>
   handleStartSimulation_settled rt (Failed err) st =
     st\<lparr>console := console st @ [Err ''Failed to start simulation:'' (Rejected err)],
        alerts := alerts st @ [failure_text rt ''Failed to start simulation: '' err]\<rparr> \<and>
   (error_detail err \<noteq> Undefined \<longrightarrow>
      failure_text rt ''Failed to start simulation: '' err =
        ''Failed to start simulation: '' @ js_to_string rt (error_detail err)) \<and>
   (error_detail err = Str detail \<longrightarrow>
      failure_text rt ''Failed to start simulation: '' err =
        ''Failed to start simulation: '' @ detail)"
  by (simp add: handleStartSimulation_settled_def handleStopSimulation_settled_def
        handleResetSimulation_settled_def alert_def console_error_def failure_text_prefix)

theorem command_failure_keeps_state_witness:
  "alerts (handleStartSimulation_settled demo_rt
     (Failed \<lparr>message = ''Request failed with status code 400'',
              response = Some (Obj [(''detail'', Str ''Simulation already running'')])\<rparr>)
     (init\<lparr>phase := Mounted\<rparr>)) =
   [''Failed to start simulation: Simulation already running''] \<and>
   isRunning (handleStartSimulation_settled demo_rt
     (Failed \<lparr>message = ''Request failed with status code 400'',
              response = Some (Obj [(''detail'', Str ''Simulation already running'')])\<rparr>)
     (init\<lparr>phase := Mounted\<rparr>)) = Bool False"
proof -
  let ?err = "\<lparr>message = ''Request failed with status code 400'',
              response = Some (Obj [(''detail'', Str ''Simulation already running'')])\<rparr>"
  have d: "error_detail ?err = Str ''Simulation already running''"
    by (simp add: error_detail_def field_def)
  show ?thesis
    using command_failure_keeps_state [of ?err "init\<lparr>phase := Mounted\<rparr>" demo_rt
        "''Simulation already running''"] d
    by (simp add: init_def)
qed

section \<open>Properties of the connection manager\<close>

lemma reads_open_never: "\<not> reads_open c"
  by (simp add: reads_open_def client_members_def)

lemma createWebSocketClient_constructs:
  "fst (createWebSocketClient st) = \<lparr>ws = length (sockets st)\<rparr> \<and>
   length (sockets (snd (createWebSocketClient st))) = Suc (length (sockets st)) \<and>
   activeWebSocket (snd (createWebSocketClient st)) = Some \<lparr>ws = length (sockets st)\<rparr>"
  by (simp add: createWebSocketClient_def new_connection_def client_close_def socket_close_def
        reads_open_never Let_def split: option.splits)

text \<open>
  C2, at two calls of \<open>createWebSocketClient\<close> with the first connection open in
  between: the second call does not return the client of the first. It closes that
  connection, which is left closing, and constructs a second socket.
\<close>

theorem second_acquire_constructs_again:
  "fst (createWebSocketClient init) = \<lparr>ws = 0\<rparr> \<and>
   sockets (step demo_rt (SocketOpen 0) (snd (createWebSocketClient init))) = [OPEN] \<and>
   fst (createWebSocketClient (step demo_rt (SocketOpen 0) (snd (createWebSocketClient init)))) =
     \<lparr>ws = 1\<rparr> \<and>
   sockets (snd (createWebSocketClient
                   (step demo_rt (SocketOpen 0) (snd (createWebSocketClient init))))) =
     [CLOSING, CONNECTING]"
  by (simp add: createWebSocketClient_def new_connection_def client_close_def socket_close_def
        reads_open_never ws_onopen_def app_onConnect_def init_def Let_def)

text \<open>
  C3 as stated fails when \<open>App\<close> unmounts with its connection open: the cleanup calls
  \<open>close()\<close>, nothing is pending then, and when the browser reports the socket closed the
  disconnect callback runs and the reconnection callback is pending, due in 3000 ms.
\<close>

theorem close_then_reconnect_scheduled:
  "sockets (run demo_rt [Mount, SocketOpen 0, Unmount] init) = [CLOSING] \<and>
   timeouts (run demo_rt [Mount, SocketOpen 0, Unmount] init) = [] \<and>
   timeouts (run demo_rt [Mount, SocketOpen 0, Unmount, SocketClose 0 ''1005 ''] init) = [3000]"
  by (simp add: mount_def unmount_def connection_effect_def connection_cleanup_def
        createWebSocketClient_def new_connection_def client_close_def socket_close_def
        ws_onopen_def ws_onclose_def app_onConnect_def app_onDisconnect_def setTimeout_def
        reconnect_delay_def events_effect_def events_cleanup_def stats_effect_def
        stats_cleanup_def stats_gate_def fetchStatus_def init_def Let_def)

lemma ws_onclose_schedules:
  "timeouts (ws_onclose (Some app_onDisconnect) detail st) = timeouts st @ [clock st + 3000]"
  by (simp add: ws_onclose_def app_onDisconnect_def setTimeout_def reconnect_delay_def Let_def)

lemma client_close_fields:
  "timeouts (client_close c st) = timeouts st \<and> clock (client_close c st) = clock st \<and>
   activeWebSocket (client_close c st) = None \<and>
   length (sockets (client_close c st)) = length (sockets st)"
  by (simp add: client_close_def socket_close_def)

lemma client_close_closing:
  "ws c < length (sockets st) \<Longrightarrow> sockets st ! ws c = CONNECTING \<or> sockets st ! ws c = OPEN \<Longrightarrow>
   sockets (client_close c st) ! ws c = CLOSING"
  by (simp add: client_close_def socket_close_def)

text \<open>
  C3, amended: an explicit \<open>close()\<close> starts closing the socket and clears
  \<open>activeWebSocket\<close>; it schedules nothing and marks nothing. When the socket is then
  reported closed, the disconnect callback runs as after any other close and schedules one
  reconnection callback, due 3000 ms later.
\<close>

theorem explicit_close_still_notifies:
  "ws c < length (sockets st) \<Longrightarrow> sockets st ! ws c = CONNECTING \<or> sockets st ! ws c = OPEN \<Longrightarrow>
   sockets (client_close c st) ! ws c = CLOSING \<and>
   activeWebSocket (client_close c st) = None \<and>
   timeouts (client_close c st) = timeouts st \<and>
   timeouts (step rt (SocketClose (ws c) detail) (client_close c st)) =
     timeouts st @ [clock st + 3000]"
  by (simp add: client_close_fields client_close_closing ws_onclose_schedules)

theorem explicit_close_still_notifies_witness:
  "timeouts (step demo_rt (SocketClose 0 ''1005 '')
     (client_close \<lparr>ws = 0\<rparr> (init\<lparr>sockets := [OPEN], clock := 250\<rparr>))) = [3250]"
proof -
  let ?st = "init\<lparr>sockets := [OPEN], clock := 250\<rparr>"
  have a: "ws \<lparr>ws = 0\<rparr> < length (sockets ?st)" by simp
  have b: "sockets ?st ! ws \<lparr>ws = 0\<rparr> = CONNECTING \<or> sockets ?st ! ws \<lparr>ws = 0\<rparr> = OPEN" by simp
  have "timeouts (step demo_rt (SocketClose (ws \<lparr>ws = 0\<rparr>) ''1005 '') (client_close \<lparr>ws = 0\<rparr> ?st)) =
     timeouts ?st @ [clock ?st + 3000]"
    using explicit_close_still_notifies [OF a b, of demo_rt "''1005 ''"] by blast
  then show ?thesis by (simp add: init_def)
qed

lemma step_close_schedules:
  "i < length (sockets st) \<Longrightarrow> sockets st ! i \<noteq> CLOSED \<Longrightarrow>
   timeouts (step rt (SocketClose i detail) st) = timeouts st @ [clock st + 3000] \<and>
   clock (step rt (SocketClose i detail) st) = clock st \<and>
   sockets (step rt (SocketClose i detail) st) = (sockets st)[i := CLOSED]"
  by (simp add: ws_onclose_def app_onDisconnect_def setTimeout_def reconnect_delay_def Let_def)

lemma step_close_once:
  "i < length (sockets st) \<Longrightarrow> sockets st ! i \<noteq> CLOSED \<Longrightarrow>
   step rt (SocketClose i detail') (step rt (SocketClose i detail) st) =
     step rt (SocketClose i detail) st"
proof -
  assume a: "i < length (sockets st)" and b: "sockets st ! i \<noteq> CLOSED"
  define st' where "st' = step rt (SocketClose i detail) st"
  have "sockets st' = (sockets st)[i := CLOSED]"
    unfolding st'_def using step_close_schedules [OF a b] by blast
  then have "sockets st' ! i = CLOSED" using a by simp
  then have "step rt (SocketClose i detail') st' = st'" by simp
  then show ?thesis unfolding st'_def .
qed

lemma reconnect_callback_constructs_nothing:
  "sockets (reconnect_callback st) = sockets st \<and>
   activeWebSocket (reconnect_callback st) = activeWebSocket st \<and>
   wsClientRef (reconnect_callback st) = None"
  by (simp add: reconnect_callback_def)

text \<open>
  The scheduling half of the reconnect policy: every close the browser reports for a socket
  schedules exactly one callback, due 3000 ms after the disconnect notification, and a
  socket is reported closed once. Asked to fire earlier, the callback does not run; from
  3000 ms on it runs, and it is no longer pending.
\<close>

theorem one_reconnect_per_close:
  "i < length (sockets st) \<Longrightarrow> sockets st ! i \<noteq> CLOSED \<Longrightarrow>
   timeouts (step rt (SocketClose i detail) st) = timeouts st @ [clock st + reconnect_delay] \<and>
   reconnect_delay = 3000 \<and>
   step rt (SocketClose i detail') (step rt (SocketClose i detail) st) =
     step rt (SocketClose i detail) st \<and>
   (\<forall>ms < 3000.
      step rt (FireTimeout (length (timeouts st)))
        (step rt (Advance ms) (step rt (SocketClose i detail) st)) =
      step rt (Advance ms) (step rt (SocketClose i detail) st)) \<and>
   (\<forall>ms \<ge> 3000.
      step rt (FireTimeout (length (timeouts st)))
        (step rt (Advance ms) (step rt (SocketClose i detail) st)) =
      reconnect_callback
        ((step rt (Advance ms) (step rt (SocketClose i detail) st))\<lparr>timeouts := timeouts st\<rparr>))"
proof -
  assume a: "i < length (sockets st)" and b: "sockets st ! i \<noteq> CLOSED"
  note s = step_close_schedules [OF a b, of rt detail]
  have 1: "timeouts (step rt (SocketClose i detail) st) = timeouts st @ [clock st + reconnect_delay]"
    using s by (simp add: reconnect_delay_def)
  have 2: "reconnect_delay = 3000" by (simp add: reconnect_delay_def)
  have 3: "step rt (SocketClose i detail') (step rt (SocketClose i detail) st) =
     step rt (SocketClose i detail) st"
    using a b by (rule step_close_once)
  define st' where "st' = step rt (SocketClose i detail) st"
  have s': "timeouts st' = timeouts st @ [clock st + 3000]" "clock st' = clock st"
    unfolding st'_def using s by simp_all
  have "\<forall>ms < 3000. step rt (FireTimeout (length (timeouts st))) (step rt (Advance ms) st') =
      step rt (Advance ms) st'"
    using s' by simp
  then have 4: "\<forall>ms < 3000.
      step rt (FireTimeout (length (timeouts st)))
        (step rt (Advance ms) (step rt (SocketClose i detail) st)) =
      step rt (Advance ms) (step rt (SocketClose i detail) st)"
    unfolding st'_def .
  have "\<forall>ms \<ge> 3000. step rt (FireTimeout (length (timeouts st))) (step rt (Advance ms) st') =
      reconnect_callback ((step rt (Advance ms) st')\<lparr>timeouts := timeouts st\<rparr>)"
    using s' by simp
  then have 5: "\<forall>ms \<ge> 3000.
      step rt (FireTimeout (length (timeouts st)))
        (step rt (Advance ms) (step rt (SocketClose i detail) st)) =
      reconnect_callback
        ((step rt (Advance ms) (step rt (SocketClose i detail) st))\<lparr>timeouts := timeouts st\<rparr>)"
    unfolding st'_def .
  show ?thesis by (rule conjI [OF 1 conjI [OF 2 conjI [OF 3 conjI [OF 4 5]]]])
qed

theorem one_reconnect_per_close_witness:
  "timeouts (run demo_rt [Mount, SocketOpen 0, Advance 500, SocketClose 0 ''1006 ''] init) = [3500] \<and>
   timeouts (run demo_rt [Mount, SocketOpen 0, Advance 500, SocketClose 0 ''1006 '',
                         Advance 2999, FireTimeout 0] init) = [3500] \<and>
   timeouts (run demo_rt [Mount, SocketOpen 0, Advance 500, SocketClose 0 ''1006 '',
                         Advance 3000, FireTimeout 0] init) = []"
proof -
  define st where "st = run demo_rt [Mount, SocketOpen 0, Advance 500] init"
  have st: "sockets st = [OPEN]" "timeouts st = []" "clock st = 500"
    unfolding st_def
    by (simp_all add: mount_def connection_effect_def createWebSocketClient_def new_connection_def
        ws_onopen_def app_onConnect_def events_effect_def stats_effect_def stats_gate_def
        fetchStatus_def init_def Let_def)
  have a: "0 < length (sockets st)" and b: "sockets st ! 0 \<noteq> CLOSED" using st by simp_all
  define s1 where "s1 = step demo_rt (SocketClose 0 ''1006 '') st"
  note t = one_reconnect_per_close [OF a b, of demo_rt "''1006 ''" "''1006 ''", folded s1_def]
  have 1: "timeouts s1 = [3500]"
    using t st by simp
  have "(2999::nat) < 3000" by simp
  with t st have 2: "step demo_rt (FireTimeout 0) (step demo_rt (Advance 2999) s1) =
      step demo_rt (Advance 2999) s1"
    by (metis list.size(3))
  have "(3000::nat) \<ge> 3000" by simp
  with t st have 3: "step demo_rt (FireTimeout 0) (step demo_rt (Advance 3000) s1) =
      reconnect_callback ((step demo_rt (Advance 3000) s1)\<lparr>timeouts := []\<rparr>)"
    by (metis list.size(3))
  have r: "run demo_rt (Mount # SocketOpen 0 # Advance 500 # SocketClose 0 ''1006 '' # es) init =
      run demo_rt es s1" for es
    unfolding s1_def st_def by (simp only: run.simps)
  have r1: "timeouts (run demo_rt [] s1) = [3500]"
    using 1 by (simp only: run.simps)
  have r2: "timeouts (run demo_rt [Advance 2999, FireTimeout 0] s1) = [3500]"
    unfolding run.simps 2 using 1 by simp
  have r3: "timeouts (run demo_rt [Advance 3000, FireTimeout 0] s1) = []"
    unfolding run.simps 3 by (simp add: reconnect_callback_def)
  show ?thesis unfolding r using r1 r2 r3 by blast
qed

text \<open>No step but the first mount constructs a socket.\<close>

lemma setIsRunning_sockets:
  "sockets (setIsRunning v st) = sockets st \<and> phase (setIsRunning v st) = phase st"
  by (simp add: setIsRunning_def events_effect_def events_cleanup_def fetchEvents_def)

lemma setSimulationState_sockets:
  "sockets (setSimulationState rt v st) = sockets st \<and>
   phase (setSimulationState rt v st) = phase st"
  by (simp add: setSimulationState_def stats_effect_def stats_cleanup_def fetchStats_def)

lemma onmessage_sockets:
  "sockets (ws_onmessage rt (Some (app_onMessage rt)) raw st) = sockets st \<and>
   phase (ws_onmessage rt (Some (app_onMessage rt)) raw st) = phase st"
  by (simp add: ws_onmessage_def onmessage_try_def app_onMessage_def setSimulationState_sockets
        split: option.splits sum.splits)

lemma mount_sockets:
  "phase st = Fresh \<Longrightarrow> sockets st = [] \<Longrightarrow>
   length (sockets (mount rt st)) \<le> 1 \<and> phase (mount rt st) = Mounted"
  by (simp add: mount_def events_effect_def stats_effect_def fetchStatus_def fetchEvents_def
        fetchStats_def connection_effect_def createWebSocketClient_def new_connection_def
        client_close_def socket_close_def reads_open_never Let_def split: option.splits)

lemma step_sockets:
  "phase st \<noteq> Fresh \<Longrightarrow>
   length (sockets (step rt e st)) = length (sockets st) \<and> phase (step rt e st) \<noteq> Fresh"
proof (cases e)
  case Mount
  then show "phase st \<noteq> Fresh \<Longrightarrow> ?thesis" by (simp add: mount_def)
next
  case Unmount
  then show "phase st \<noteq> Fresh \<Longrightarrow> ?thesis"
    by (simp add: unmount_def events_cleanup_def stats_cleanup_def connection_cleanup_def
        client_close_def socket_close_def split: option.splits)
next
  case (SocketOpen i)
  then show "phase st \<noteq> Fresh \<Longrightarrow> ?thesis"
    by (simp add: ws_onopen_def app_onConnect_def Let_def)
next
  case (SocketMessage i raw)
  then show "phase st \<noteq> Fresh \<Longrightarrow> ?thesis" by (simp add: onmessage_sockets)
next
  case (SocketClose i detail)
  then show "phase st \<noteq> Fresh \<Longrightarrow> ?thesis"
    by (simp add: ws_onclose_def app_onDisconnect_def setTimeout_def Let_def)
next
  case (Advance ms)
  then show "phase st \<noteq> Fresh \<Longrightarrow> ?thesis" by simp
next
  case (FireTimeout k)
  then show "phase st \<noteq> Fresh \<Longrightarrow> ?thesis" by (simp add: reconnect_callback_def)
next
  case (StatusSettled out)
  then show "phase st \<noteq> Fresh \<Longrightarrow> ?thesis"
    by (simp add: fetchStatus_settled_def setIsRunning_sockets console_error_def
          split: outcome.splits sum.splits)
next
  case EventsTick
  then show "phase st \<noteq> Fresh \<Longrightarrow> ?thesis" by (simp add: events_tick_def fetchEvents_def)
next
  case (EventsSettled out)
  then show "phase st \<noteq> Fresh \<Longrightarrow> ?thesis"
    by (simp add: fetchEvents_settled_def setEvents_def split: outcome.splits)
next
  case StatsTick
  then show "phase st \<noteq> Fresh \<Longrightarrow> ?thesis" by (simp add: stats_tick_def fetchStats_def)
next
  case (StatsSettled timestamp out)
  then show "phase st \<noteq> Fresh \<Longrightarrow> ?thesis"
    by (simp add: fetchStats_settled_def setStats_def setHistoricalData_def split: outcome.splits)
next
  case (StartClick config)
  then show "phase st \<noteq> Fresh \<Longrightarrow> ?thesis" by (simp add: handleStartSimulation_def)
next
  case (StartSettled out)
  then show "phase st \<noteq> Fresh \<Longrightarrow> ?thesis"
    by (simp add: handleStartSimulation_settled_def setIsRunning_sockets alert_def
          console_error_def split: outcome.splits)
next
  case StopClick
  then show "phase st \<noteq> Fresh \<Longrightarrow> ?thesis" by (simp add: handleStopSimulation_def)
next
  case (StopSettled out)
  then show "phase st \<noteq> Fresh \<Longrightarrow> ?thesis"
    by (simp add: handleStopSimulation_settled_def setIsRunning_sockets console_error_def
          split: outcome.splits)
next
  case ResetClick
  then show "phase st \<noteq> Fresh \<Longrightarrow> ?thesis" by (simp add: handleResetSimulation_def)
next
  case (ResetSettled out)
  then show "phase st \<noteq> Fresh \<Longrightarrow> ?thesis"
    by (simp add: handleResetSimulation_settled_def setSimulationState_sockets setEvents_def
          console_error_def split: outcome.splits)
qed

lemma run_sockets:
  "phase st \<noteq> Fresh \<Longrightarrow> length (sockets (run rt es st)) = length (sockets st)"
proof (induction es arbitrary: st)
  case Nil
  show ?case by simp
next
  case (Cons e es)
  from step_sockets [OF Cons.prems, of rt e]
  have a: "length (sockets (step rt e st)) = length (sockets st)"
    and b: "phase (step rt e st) \<noteq> Fresh" by simp_all
  show ?case using Cons.IH [OF b] a by simp
qed

lemma fresh_step:
  "phase st = Fresh \<Longrightarrow> sockets st = [] \<Longrightarrow> e \<noteq> Mount \<Longrightarrow>
   phase (step rt e st) = Fresh \<and> sockets (step rt e st) = []"
  by (cases e)
    (simp_all add: unmount_def setIsRunning_def setSimulationState_def setEvents_def
      setStats_def setHistoricalData_def ws_onmessage_def onmessage_try_def app_onMessage_def
      fetchStatus_settled_def console_error_def events_tick_def stats_tick_def fetchEvents_def
      fetchStats_def fetchEvents_settled_def fetchStats_settled_def handleStartSimulation_def
      handleStartSimulation_settled_def handleStopSimulation_def handleStopSimulation_settled_def
      handleResetSimulation_def handleResetSimulation_settled_def alert_def reconnect_callback_def
      split: outcome.splits sum.splits option.splits)

lemma one_socket_ever:
  "phase st = Fresh \<Longrightarrow> sockets st = [] \<Longrightarrow> length (sockets (run rt es st)) \<le> 1"
proof (induction es arbitrary: st)
  case Nil
  then show ?case by simp
next
  case (Cons e es)
  show ?case
  proof (cases "e = Mount")
    case True
    from mount_sockets [OF Cons.prems, of rt]
    have "length (sockets (mount rt st)) \<le> 1" and "phase (mount rt st) \<noteq> Fresh" by simp_all
    then show ?thesis using True run_sockets [of "mount rt st" rt es] by simp
  next
    case False
    from fresh_step [OF Cons.prems False, of rt]
    show ?thesis using Cons.IH by simp
  qed
qed

lemma no_second_socket: "length (sockets (run rt es init)) \<le> 1"
  by (rule one_socket_ever) (simp_all add: init_def)

text \<open>
  C4, at a connection the server drops: \<open>App\<close> mounts, its socket opens and is then
  reported closed, and 3000 ms later the scheduled callback fires. One callback was
  pending, and it ran when due; but it only logged the attempt and cleared the ref. No
  second socket was constructed, and the client is left with its one closed socket and no
  active connection.
\<close>

theorem reconnect_attempt_acquires_nothing:
  "timeouts (run demo_rt [Mount, SocketOpen 0, SocketClose 0 ''1006 ''] init) = [3000] \<and>
   run demo_rt [Mount, SocketOpen 0, SocketClose 0 ''1006 '', Advance 3000, FireTimeout 0] init =
     (run demo_rt [Mount, SocketOpen 0, SocketClose 0 ''1006 ''] init)
       \<lparr>clock := 3000, timeouts := [],
         console := console (run demo_rt [Mount, SocketOpen 0, SocketClose 0 ''1006 ''] init) @
                      [Log ''Attempting to reconnect WebSocket...''],
         wsClientRef := None\<rparr> \<and>
   sockets (run demo_rt [Mount, SocketOpen 0, SocketClose 0 ''1006 '', Advance 3000,
                         FireTimeout 0] init) = [CLOSED] \<and>
   activeWebSocket (run demo_rt [Mount, SocketOpen 0, SocketClose 0 ''1006 '', Advance 3000,
                                 FireTimeout 0] init) = None \<and>
   wsClientRef (run demo_rt [Mount, SocketOpen 0, SocketClose 0 ''1006 '', Advance 3000,
                             FireTimeout 0] init) = None"
  by (simp add: mount_def connection_effect_def createWebSocketClient_def new_connection_def
        ws_onopen_def ws_onclose_def app_onConnect_def app_onDisconnect_def setTimeout_def
        reconnect_delay_def reconnect_callback_def events_effect_def stats_effect_def
        stats_gate_def fetchStatus_def init_def Let_def)

section \<open>Properties of the polling fallback\<close>

lemma poll_inv_frame:
  "phase st' = phase st \<Longrightarrow> isRunning st' = isRunning st \<Longrightarrow>
   simulationState st' = simulationState st \<Longrightarrow> events_interval st' = events_interval st \<Longrightarrow>
   stats_interval st' = stats_interval st \<Longrightarrow> poll_inv rt st' = poll_inv rt st"
  by (simp add: poll_inv_def)

lemma poll_inv_updates:
  "poll_inv rt (st\<lparr>console := c\<rparr>) = poll_inv rt st"
  "poll_inv rt (st\<lparr>requests := r\<rparr>) = poll_inv rt st"
  "poll_inv rt (st\<lparr>alerts := a\<rparr>) = poll_inv rt st"
  "poll_inv rt (st\<lparr>sockets := s\<rparr>) = poll_inv rt st"
  "poll_inv rt (st\<lparr>activeWebSocket := w\<rparr>) = poll_inv rt st"
  "poll_inv rt (st\<lparr>wsClientRef := w\<rparr>) = poll_inv rt st"
  "poll_inv rt (st\<lparr>clock := n\<rparr>) = poll_inv rt st"
  "poll_inv rt (st\<lparr>timeouts := t\<rparr>) = poll_inv rt st"
  "poll_inv rt (st\<lparr>events := v\<rparr>) = poll_inv rt st"
  "poll_inv rt (st\<lparr>stats := v\<rparr>) = poll_inv rt st"
  "poll_inv rt (st\<lparr>historicalData := h\<rparr>) = poll_inv rt st"
  by (simp_all add: poll_inv_def)

lemma setIsRunning_inv: "poll_inv rt st \<Longrightarrow> poll_inv rt (setIsRunning v st)"
  by (auto simp: poll_inv_def setIsRunning_def events_effect_def events_cleanup_def fetchEvents_def)

lemma setSimulationState_inv: "poll_inv rt st \<Longrightarrow> poll_inv rt (setSimulationState rt v st)"
  by (auto simp: poll_inv_def setSimulationState_def stats_effect_def stats_cleanup_def
        fetchStats_def)

lemma setEvents_inv: "poll_inv rt (setEvents v st) = poll_inv rt st"
  by (rule poll_inv_frame) (simp_all add: setEvents_def)

lemma setStats_inv: "poll_inv rt (setStats v st) = poll_inv rt st"
  by (rule poll_inv_frame) (simp_all add: setStats_def)

lemma setHistoricalData_inv: "poll_inv rt (setHistoricalData f st) = poll_inv rt st"
  by (rule poll_inv_frame) (simp_all add: setHistoricalData_def)

lemma console_error_inv: "poll_inv rt (console_error text caught st) = poll_inv rt st"
  by (rule poll_inv_frame) (simp_all add: console_error_def)

lemma alert_inv: "poll_inv rt (alert text st) = poll_inv rt st"
  by (rule poll_inv_frame) (simp_all add: alert_def)

lemma onmessage_inv:
  "poll_inv rt st \<Longrightarrow> poll_inv rt (ws_onmessage rt (Some (app_onMessage rt)) raw st)"
  by (simp add: ws_onmessage_def onmessage_try_def app_onMessage_def setSimulationState_inv
        poll_inv_updates split: option.splits sum.splits)

lemma createWebSocketClient_frame:
  "phase (snd (createWebSocketClient st)) = phase st \<and>
   isRunning (snd (createWebSocketClient st)) = isRunning st \<and>
   simulationState (snd (createWebSocketClient st)) = simulationState st \<and>
   events_interval (snd (createWebSocketClient st)) = events_interval st \<and>
   stats_interval (snd (createWebSocketClient st)) = stats_interval st \<and>
   requests (snd (createWebSocketClient st)) = requests st"
  by (simp add: createWebSocketClient_def new_connection_def client_close_def socket_close_def
        Let_def split: option.splits)

lemma connection_effect_frame:
  "phase (connection_effect st) = phase st \<and>
   isRunning (connection_effect st) = isRunning st \<and>
   simulationState (connection_effect st) = simulationState st \<and>
   events_interval (connection_effect st) = events_interval st \<and>
   stats_interval (connection_effect st) = stats_interval st \<and>
   requests (connection_effect st) = requests st"
  using createWebSocketClient_frame [of st]
  by (simp add: connection_effect_def split_beta split: option.splits)

lemma connection_cleanup_frame:
  "phase (connection_cleanup st) = phase st \<and>
   isRunning (connection_cleanup st) = isRunning st \<and>
   simulationState (connection_cleanup st) = simulationState st \<and>
   events_interval (connection_cleanup st) = events_interval st \<and>
   stats_interval (connection_cleanup st) = stats_interval st \<and>
   requests (connection_cleanup st) = requests st"
  by (simp add: connection_cleanup_def client_close_def socket_close_def split: option.splits)

lemma mount_inv: "poll_inv rt st \<Longrightarrow> poll_inv rt (mount rt st)"
  by (auto simp: poll_inv_def mount_def events_effect_def stats_effect_def fetchStatus_def
        fetchEvents_def fetchStats_def connection_effect_frame)

lemma unmount_inv: "poll_inv rt st \<Longrightarrow> poll_inv rt (unmount st)"
  by (auto simp: poll_inv_def unmount_def events_cleanup_def stats_cleanup_def
        connection_cleanup_frame)

lemma step_inv: "poll_inv rt st \<Longrightarrow> poll_inv rt (step rt e st)"
proof (cases e)
  case Mount
  then show "poll_inv rt st \<Longrightarrow> ?thesis" by (simp add: mount_inv)
next
  case Unmount
  then show "poll_inv rt st \<Longrightarrow> ?thesis" by (simp add: unmount_inv)
next
  case (SocketOpen i)
  then show "poll_inv rt st \<Longrightarrow> ?thesis"
    by (simp add: poll_inv_updates ws_onopen_def app_onConnect_def Let_def)
next
  case (SocketMessage i raw)
  then show "poll_inv rt st \<Longrightarrow> ?thesis" by (simp add: onmessage_inv)
next
  case (SocketClose i detail)
  then show "poll_inv rt st \<Longrightarrow> ?thesis"
    by (simp add: poll_inv_updates ws_onclose_def app_onDisconnect_def setTimeout_def Let_def)
next
  case (Advance ms)
  then show "poll_inv rt st \<Longrightarrow> ?thesis" by (simp add: poll_inv_updates)
next
  case (FireTimeout k)
  then show "poll_inv rt st \<Longrightarrow> ?thesis" by (simp add: poll_inv_updates reconnect_callback_def)
next
  case (StatusSettled out)
  then show "poll_inv rt st \<Longrightarrow> ?thesis"
    by (simp add: fetchStatus_settled_def setIsRunning_inv console_error_inv
          split: outcome.splits sum.splits)
next
  case EventsTick
  then show "poll_inv rt st \<Longrightarrow> ?thesis" by (simp add: poll_inv_updates events_tick_def fetchEvents_def)
next
  case (EventsSettled out)
  then show "poll_inv rt st \<Longrightarrow> ?thesis"
    by (simp add: fetchEvents_settled_def setEvents_inv poll_inv_updates split: outcome.splits)
next
  case StatsTick
  then show "poll_inv rt st \<Longrightarrow> ?thesis" by (simp add: poll_inv_updates stats_tick_def fetchStats_def)
next
  case (StatsSettled timestamp out)
  then show "poll_inv rt st \<Longrightarrow> ?thesis"
    by (simp add: fetchStats_settled_def setStats_inv setHistoricalData_inv poll_inv_updates
          split: outcome.splits)
next
  case (StartClick config)
  then show "poll_inv rt st \<Longrightarrow> ?thesis" by (simp add: poll_inv_updates handleStartSimulation_def)
next
  case (StartSettled out)
  then show "poll_inv rt st \<Longrightarrow> ?thesis"
    by (simp add: handleStartSimulation_settled_def setIsRunning_inv alert_inv console_error_inv
          split: outcome.splits)
next
  case StopClick
  then show "poll_inv rt st \<Longrightarrow> ?thesis" by (simp add: poll_inv_updates handleStopSimulation_def)
next
  case (StopSettled out)
  then show "poll_inv rt st \<Longrightarrow> ?thesis"
    by (simp add: handleStopSimulation_settled_def setIsRunning_inv console_error_inv
          split: outcome.splits)
next
  case ResetClick
  then show "poll_inv rt st \<Longrightarrow> ?thesis" by (simp add: poll_inv_updates handleResetSimulation_def)
next
  case (ResetSettled out)
  then show "poll_inv rt st \<Longrightarrow> ?thesis"
    by (simp add: handleResetSimulation_settled_def setSimulationState_inv setEvents_inv
          console_error_inv split: outcome.splits)
qed

lemma run_inv: "poll_inv rt st \<Longrightarrow> poll_inv rt (run rt es st)"
  by (induction es arbitrary: st) (simp_all add: step_inv)

lemma init_inv: "poll_inv rt init"
  by (simp add: poll_inv_def init_def)

lemma setIsRunning_effect:
  "requests (setIsRunning v st) =
     requests st @ (if phase st = Mounted \<and> changed (isRunning st) v \<and> truthy v
                    then [GET_events 100] else []) \<and>
   isRunning (setIsRunning v st) = (if phase st = Mounted then v else isRunning st) \<and>
   simulationState (setIsRunning v st) = simulationState st \<and>
   phase (setIsRunning v st) = phase st"
  by (auto simp: setIsRunning_def events_effect_def events_cleanup_def fetchEvents_def
        dest: unchanged_eq)

lemma setSimulationState_effect:
  "requests (setSimulationState rt v st) =
     requests st @ (if phase st = Mounted \<and> changed (simulationState st) v \<and> stats_gate rt v
                    then [GET_stats] else []) \<and>
   simulationState (setSimulationState rt v st) =
     (if phase st = Mounted then v else simulationState st) \<and>
   isRunning (setSimulationState rt v st) = isRunning st \<and>
   phase (setSimulationState rt v st) = phase st"
  by (auto simp: setSimulationState_def stats_effect_def stats_cleanup_def fetchStats_def
        dest: unchanged_eq)

lemma setEvents_effect:
  "requests (setEvents v st) = requests st \<and> isRunning (setEvents v st) = isRunning st \<and>
   simulationState (setEvents v st) = simulationState st \<and> phase (setEvents v st) = phase st"
  by (simp add: setEvents_def)

lemma onmessage_effect:
  "\<exists>new. requests (ws_onmessage rt (Some (app_onMessage rt)) raw st) = requests st @ new \<and>
     (\<forall>n. GET_events n \<notin> set new) \<and>
     (GET_stats \<in> set new \<longrightarrow>
        phase st = Mounted \<and>
        stats_gate rt (simulationState (ws_onmessage rt (Some (app_onMessage rt)) raw st))) \<and>
     phase (ws_onmessage rt (Some (app_onMessage rt)) raw st) = phase st"
  by (simp add: ws_onmessage_def onmessage_try_def app_onMessage_def setSimulationState_effect
        split: option.splits sum.splits)

lemma step_issued:
  "poll_inv rt st \<Longrightarrow>
   (GET_events n \<in> set (issued rt e st) \<longrightarrow>
      phase (step rt e st) = Mounted \<and> truthy (isRunning (step rt e st))) \<and>
   (GET_stats \<in> set (issued rt e st) \<longrightarrow>
      phase (step rt e st) = Mounted \<and> stats_gate rt (simulationState (step rt e st)))"
proof (cases e)
  case Mount
  then show "poll_inv rt st \<Longrightarrow> ?thesis"
    by (simp add: issued_def mount_def events_effect_def stats_effect_def fetchStatus_def
        fetchEvents_def fetchStats_def connection_effect_frame)
next
  case Unmount
  then show "poll_inv rt st \<Longrightarrow> ?thesis"
    by (simp add: issued_def unmount_def events_cleanup_def stats_cleanup_def
        connection_cleanup_frame)
next
  case (SocketOpen i)
  then show "poll_inv rt st \<Longrightarrow> ?thesis"
    by (simp add: issued_def ws_onopen_def app_onConnect_def Let_def)
next
  case (SocketMessage i raw)
  obtain new where new: "requests (ws_onmessage rt (Some (app_onMessage rt)) raw st) = requests st @ new"
     "\<forall>n. GET_events n \<notin> set new"
     "GET_stats \<in> set new \<longrightarrow>
        phase st = Mounted \<and>
        stats_gate rt (simulationState (ws_onmessage rt (Some (app_onMessage rt)) raw st))"
     "phase (ws_onmessage rt (Some (app_onMessage rt)) raw st) = phase st"
    using onmessage_effect [of rt raw st] by blast
  show "poll_inv rt st \<Longrightarrow> ?thesis"
    unfolding SocketMessage issued_def using new by simp
next
  case (SocketClose i detail)
  then show "poll_inv rt st \<Longrightarrow> ?thesis"
    by (simp add: issued_def ws_onclose_def app_onDisconnect_def setTimeout_def Let_def)
next
  case (Advance ms)
  then show "poll_inv rt st \<Longrightarrow> ?thesis" by (simp add: issued_def)
next
  case (FireTimeout k)
  then show "poll_inv rt st \<Longrightarrow> ?thesis" by (simp add: issued_def reconnect_callback_def)
next
  case (StatusSettled out)
  then show "poll_inv rt st \<Longrightarrow> ?thesis"
    by (simp add: issued_def fetchStatus_settled_def setIsRunning_effect console_error_def
          split: outcome.splits sum.splits)
next
  case EventsTick
  then show "poll_inv rt st \<Longrightarrow> ?thesis"
    by (simp add: issued_def poll_inv_def events_tick_def fetchEvents_def)
next
  case (EventsSettled out)
  then show "poll_inv rt st \<Longrightarrow> ?thesis"
    by (simp add: issued_def fetchEvents_settled_def setEvents_effect split: outcome.splits)
next
  case StatsTick
  then show "poll_inv rt st \<Longrightarrow> ?thesis"
    by (simp add: issued_def poll_inv_def stats_tick_def fetchStats_def)
next
  case (StatsSettled timestamp out)
  then show "poll_inv rt st \<Longrightarrow> ?thesis"
    by (simp add: issued_def fetchStats_settled_def setStats_def setHistoricalData_def
          split: outcome.splits)
next
  case (StartClick config)
  then show "poll_inv rt st \<Longrightarrow> ?thesis" by (simp add: issued_def handleStartSimulation_def)
next
  case (StartSettled out)
  then show "poll_inv rt st \<Longrightarrow> ?thesis"
    by (simp add: issued_def handleStartSimulation_settled_def setIsRunning_effect alert_def
          console_error_def split: outcome.splits)
next
  case StopClick
  then show "poll_inv rt st \<Longrightarrow> ?thesis" by (simp add: issued_def handleStopSimulation_def)
next
  case (StopSettled out)
  then show "poll_inv rt st \<Longrightarrow> ?thesis"
    by (simp add: issued_def handleStopSimulation_settled_def setIsRunning_effect
          console_error_def split: outcome.splits)
next
  case ResetClick
  then show "poll_inv rt st \<Longrightarrow> ?thesis" by (simp add: issued_def handleResetSimulation_def)
next
  case (ResetSettled out)
  then show "poll_inv rt st \<Longrightarrow> ?thesis"
    by (simp add: issued_def handleResetSimulation_settled_def setSimulationState_effect
          setEvents_effect console_error_def stats_gate_def split: outcome.splits)
qed

lemma differ_changed: "old \<noteq> new \<Longrightarrow> changed old new"
  by (cases new) auto

lemma setIsRunning_starts:
  "phase st = Mounted \<Longrightarrow> poll_inv rt st \<Longrightarrow> \<not> truthy (isRunning st) \<Longrightarrow> truthy v \<Longrightarrow>
   setIsRunning v st =
     st\<lparr>isRunning := v, requests := requests st @ [GET_events 100], events_interval := True\<rparr>"
proof -
  assume m: "phase st = Mounted" and i: "poll_inv rt st"
    and f: "\<not> truthy (isRunning st)" and t: "truthy v"
  from f t have "isRunning st \<noteq> v" by auto
  then have c: "changed (isRunning st) v" by (rule differ_changed)
  from i m f have "\<not> events_interval st" by (simp add: poll_inv_def)
  with m c t show ?thesis
    by (simp add: setIsRunning_def events_effect_def events_cleanup_def fetchEvents_def)
qed

lemma setIsRunning_stops:
  "phase st = Mounted \<Longrightarrow> poll_inv rt st \<Longrightarrow> truthy (isRunning st) \<Longrightarrow> \<not> truthy v \<Longrightarrow>
   setIsRunning v st = st\<lparr>isRunning := v, events_interval := False\<rparr>"
proof -
  assume m: "phase st = Mounted" and i: "poll_inv rt st"
    and t: "truthy (isRunning st)" and f: "\<not> truthy v"
  from f t have "isRunning st \<noteq> v" by auto
  then have c: "changed (isRunning st) v" by (rule differ_changed)
  from i m t have "events_interval st" by (simp add: poll_inv_def)
  with m c f show ?thesis
    by (simp add: setIsRunning_def events_effect_def events_cleanup_def fetchEvents_def)
qed

text \<open>
  C5, where the statistics timer leaves the running flag. With the simulation reported
  running and a snapshot of time 1 pushed, a successful stop makes the flag false and
  clears the events interval, but the statistics interval stays set and its next tick
  sends a statistics request. And a successful start on the initial null snapshot sets the
  events interval alone.
\<close>

theorem stats_polling_ignores_flag:
  \<open>isRunning (run demo_rt [Mount, StatusSettled (Ok (Obj [(''running'', Bool True)])),
       SocketOpen 0, SocketMessage 0 ''{"type":"state_update","data":{"time":1}}'',
       StopClick, StopSettled (Ok Null)] init) = Bool False \<and>
   events_interval (run demo_rt [Mount, StatusSettled (Ok (Obj [(''running'', Bool True)])),
       SocketOpen 0, SocketMessage 0 ''{"type":"state_update","data":{"time":1}}'',
       StopClick, StopSettled (Ok Null)] init) = False \<and>
   stats_interval (run demo_rt [Mount, StatusSettled (Ok (Obj [(''running'', Bool True)])),
       SocketOpen 0, SocketMessage 0 ''{"type":"state_update","data":{"time":1}}'',
       StopClick, StopSettled (Ok Null)] init) = True \<and>
   issued demo_rt StatsTick (run demo_rt [Mount, StatusSettled (Ok (Obj [(''running'', Bool True)])),
       SocketOpen 0, SocketMessage 0 ''{"type":"state_update","data":{"time":1}}'',
       StopClick, StopSettled (Ok Null)] init) = [GET_stats] \<and>
   isRunning (run demo_rt [Mount, StartClick (Obj []), StartSettled (Ok Null)] init) = Bool True \<and>
   events_interval (run demo_rt [Mount, StartClick (Obj []), StartSettled (Ok Null)] init) = True \<and>
   stats_interval (run demo_rt [Mount, StartClick (Obj []), StartSettled (Ok Null)] init) = False\<close>
  by (simp add: issued_def mount_def connection_effect_def createWebSocketClient_def
        new_connection_def ws_onopen_def app_onConnect_def ws_onmessage_def onmessage_try_def
        app_onMessage_def setSimulationState_def setIsRunning_def events_effect_def
        events_cleanup_def stats_effect_def stats_cleanup_def stats_gate_def fetchStatus_def
        fetchStatus_settled_def fetchEvents_def fetchStats_def stats_tick_def
        handleStopSimulation_def handleStopSimulation_settled_def handleStartSimulation_def
        handleStartSimulation_settled_def demo_rt_def demo_parse_def init_def Let_def)

text \<open>
  What the polling code keeps in every state the client can reach: the events interval is
  set if and only if \<open>App\<close> is mounted and the running flag is truthy, and an events
  request goes out only in a step that leaves the flag truthy; turning the flag on sends
  one events request and sets the interval, turning it off clears the interval. The
  statistics interval follows the snapshot instead: it is set if and only if the component
  is mounted and the snapshot is truthy with a \<open>time\<close> above 0, and a statistics request
  goes out only in a step that leaves such a snapshot.
\<close>

theorem polling_follows_flag_and_snapshot:
  "poll_inv rt (run rt es init) \<and>
   (GET_events n \<in> set (issued rt e (run rt es init)) \<longrightarrow>
      phase (step rt e (run rt es init)) = Mounted \<and>
      truthy (isRunning (step rt e (run rt es init)))) \<and>
   (GET_stats \<in> set (issued rt e (run rt es init)) \<longrightarrow>
      phase (step rt e (run rt es init)) = Mounted \<and>
      stats_gate rt (simulationState (step rt e (run rt es init)))) \<and>
   (phase (run rt es init) = Mounted \<and> \<not> truthy (isRunning (run rt es init)) \<and> truthy v \<longrightarrow>
      setIsRunning v (run rt es init) =
        (run rt es init)\<lparr>isRunning := v,
                          requests := requests (run rt es init) @ [GET_events 100],
                          events_interval := True\<rparr>) \<and>
   (phase (run rt es init) = Mounted \<and> truthy (isRunning (run rt es init)) \<and> \<not> truthy v \<longrightarrow>
      setIsRunning v (run rt es init) =
        (run rt es init)\<lparr>isRunning := v, events_interval := False\<rparr>)"
proof -
  define S where "S = run rt es init"
  have i: "poll_inv rt S" unfolding S_def by (rule run_inv [OF init_inv])
  note q = step_issued [OF i, of n e]
  have 1: "GET_events n \<in> set (issued rt e S) \<longrightarrow>
      phase (step rt e S) = Mounted \<and> truthy (isRunning (step rt e S))"
    using q by blast
  have 2: "GET_stats \<in> set (issued rt e S) \<longrightarrow>
      phase (step rt e S) = Mounted \<and> stats_gate rt (simulationState (step rt e S))"
    using q by blast
  have 3: "phase S = Mounted \<and> \<not> truthy (isRunning S) \<and> truthy v \<longrightarrow>
      setIsRunning v S =
        S\<lparr>isRunning := v, requests := requests S @ [GET_events 100], events_interval := True\<rparr>"
    using setIsRunning_starts [OF _ i] by blast
  have 4: "phase S = Mounted \<and> truthy (isRunning S) \<and> \<not> truthy v \<longrightarrow>
      setIsRunning v S = S\<lparr>isRunning := v, events_interval := False\<rparr>"
    using setIsRunning_stops [OF _ i] by blast
  show ?thesis
    using conjI [OF i conjI [OF 1 conjI [OF 2 conjI [OF 3 4]]]] unfolding S_def .
qed

theorem polling_follows_flag_and_snapshot_witness:
  "issued demo_rt EventsTick
     (run demo_rt [Mount, StatusSettled (Ok (Obj [(''running'', Bool True)]))] init) =
     [GET_events 100] \<and>
   truthy (isRunning (step demo_rt EventsTick
     (run demo_rt [Mount, StatusSettled (Ok (Obj [(''running'', Bool True)]))] init))) \<and>
   events_interval (run demo_rt [Mount, StatusSettled (Ok (Obj [(''running'', Bool True)]))] init) \<and>
   setIsRunning (Bool False)
     (run demo_rt [Mount, StatusSettled (Ok (Obj [(''running'', Bool True)]))] init) =
     (run demo_rt [Mount, StatusSettled (Ok (Obj [(''running'', Bool True)]))] init)
       \<lparr>isRunning := Bool False, events_interval := False\<rparr>"
proof -
  define S where "S = run demo_rt [Mount, StatusSettled (Ok (Obj [(''running'', Bool True)]))] init"
  have f: "phase S = Mounted" "isRunning S = Bool True"
    unfolding S_def
    by (simp_all add: mount_def connection_effect_def createWebSocketClient_def
        new_connection_def setIsRunning_def events_effect_def events_cleanup_def
        stats_effect_def stats_gate_def fetchStatus_def fetchStatus_settled_def fetchEvents_def
        init_def Let_def)
  note t = polling_follows_flag_and_snapshot [of demo_rt
      "[Mount, StatusSettled (Ok (Obj [(''running'', Bool True)]))]" 100 EventsTick "Bool False",
      folded S_def]
  from t f have e: "events_interval S" by (simp add: poll_inv_def)
  then have i: "issued demo_rt EventsTick S = [GET_events 100]"
    by (simp add: issued_def events_tick_def fetchEvents_def)
  from t i have r: "truthy (isRunning (step demo_rt EventsTick S))" by simp
  from t f have s: "setIsRunning (Bool False) S = S\<lparr>isRunning := Bool False, events_interval := False\<rparr>"
    by simp
  show ?thesis using i r e s unfolding S_def by blast
qed

end
